theory Spec2Isabelle
  imports Complex_Main "HOL-Library.Char_ord" "HOL-Library.List_Lexorder"
    "HOL-Library.Product_Lexorder"
begin

section \<open>Python strings\<close>

text \<open>
  A Python \<^verbatim>\<open>str\<close> is modelled as a \<^typ>\<open>string\<close> whose characters are the code points
  0 to 255. On these the definitions below are the tables of Python: \<^verbatim>\<open>str.isspace\<close>,
  which is what \<^verbatim>\<open>str.strip\<close> removes and what the regex class \<^verbatim>\<open>\s\<close> matches, holds
  of the code points 9 to 13, 28 to 32, 133 and 160; \<^verbatim>\<open>str.lower\<close> adds 32 to the code
  points 65 to 90, 192 to 214 and 216 to 222 and leaves the others; \<^verbatim>\<open>\w\<close> holds of the
  digits, the letters and the underscore below 128 and of the code points 170, 178, 179,
  181, 185, 186, 188 to 190, 192 to 214, 216 to 246 and 248 to 255. Strings are compared by
  code point. Text with a code point from 256 on is not a value of the type.
\<close>

definition is_space :: "char \<Rightarrow> bool" where
  "is_space c = (let n = (of_char c :: nat) in
     (9 \<le> n \<and> n \<le> 13) \<or> (28 \<le> n \<and> n \<le> 32) \<or> n = 133 \<or> n = 160)"

definition is_upper :: "char \<Rightarrow> bool" where
  "is_upper c = (let n = (of_char c :: nat) in
     (65 \<le> n \<and> n \<le> 90) \<or> (192 \<le> n \<and> n \<le> 214) \<or> (216 \<le> n \<and> n \<le> 222))"

definition is_word :: "char \<Rightarrow> bool" where
  "is_word c = (let n = (of_char c :: nat) in
     (48 \<le> n \<and> n \<le> 57) \<or> (65 \<le> n \<and> n \<le> 90) \<or> n = 95 \<or> (97 \<le> n \<and> n \<le> 122) \<or>
     n = 170 \<or> n = 178 \<or> n = 179 \<or> n = 181 \<or> n = 185 \<or> n = 186 \<or> (188 \<le> n \<and> n \<le> 190) \<or>
     (192 \<le> n \<and> n \<le> 214) \<or> (216 \<le> n \<and> n \<le> 246) \<or> (248 \<le> n \<and> n \<le> 255))"

definition lower_char :: "char \<Rightarrow> char" where
  "lower_char c = (if is_upper c then char_of ((of_char c :: nat) + 32) else c)"

definition py_lower :: "string \<Rightarrow> string" where
  "py_lower s = map lower_char s"

definition py_strip :: "string \<Rightarrow> string" where
  "py_strip s = rev (dropWhile is_space (rev (dropWhile is_space s)))"

section \<open>Regular expressions of the \<^verbatim>\<open>re\<close> module\<close>

text \<open>
  The fragment of regular expressions the program uses: the empty pattern, character
  classes (a literal is the class of one character), \<^verbatim>\<open>\b\<close>,
  \<^verbatim>\<open>$\<close>, concatenation, alternation and the greedy \<^verbatim>\<open>+\<close>. A cursor is the character just
  before the current position (if any) and the rest of the subject. \<open>re_match r k\<close> lists
  the cursors at which a match of \<open>r\<close> starting at \<open>k\<close> can end, in the order in which
  the backtracking matcher of \<^verbatim>\<open>re\<close> tries them.
\<close>

datatype regex =
    Eps
  | Class "char \<Rightarrow> bool"
  | WordB
  | EndAnchor
  | Seq regex regex
  | Alt regex regex
  | Plus regex

type_synonym cursor = "char option \<times> string"

definition at_boundary :: "char option \<Rightarrow> string \<Rightarrow> bool" where
  "at_boundary p s =
     ((case p of None \<Rightarrow> False | Some c \<Rightarrow> is_word c) \<noteq> (case s of [] \<Rightarrow> False | c # _ \<Rightarrow> is_word c))"

fun plus_iter :: "(cursor \<Rightarrow> cursor list) \<Rightarrow> nat \<Rightarrow> cursor \<Rightarrow> cursor list" where
  "plus_iter f 0 k = []"
| "plus_iter f (Suc n) k =
     concat (map (\<lambda>k'. (if length (snd k') < length (snd k) then plus_iter f n k' else []) @ [k'])
                 (f k))"

fun re_match :: "regex \<Rightarrow> cursor \<Rightarrow> cursor list" where
  "re_match Eps k = [k]"
| "re_match (Class P) (p, s) = (case s of [] \<Rightarrow> [] | c # cs \<Rightarrow> if P c then [(Some c, cs)] else [])"
| "re_match WordB (p, s) = (if at_boundary p s then [(p, s)] else [])"
| "re_match EndAnchor (p, s) = (if s = [] \<or> s = [CHR 0x0A] then [(p, s)] else [])"
| "re_match (Seq r1 r2) k = concat (map (\<lambda>k'. re_match r2 k') (re_match r1 k))"
| "re_match (Alt r1 r2) k = re_match r1 k @ re_match r2 k"
| "re_match (Plus r) k = plus_iter (\<lambda>k'. re_match r k') (Suc (length (snd k))) k"

text \<open>\<^verbatim>\<open>re.search\<close>: is there a match starting at some position of the subject?\<close>

fun re_search_from :: "regex \<Rightarrow> char option \<Rightarrow> string \<Rightarrow> bool" where
  "re_search_from r p [] = (re_match r (p, []) \<noteq> [])"
| "re_search_from r p (c # cs) = (re_match r (p, c # cs) \<noteq> [] \<or> re_search_from r (Some c) cs)"

definition re_search :: "regex \<Rightarrow> string \<Rightarrow> bool" where
  "re_search r s = re_search_from r None s"

text \<open>
  \<^verbatim>\<open>re.sub\<close>: scanning from the left, the first match found at a position is replaced and
  the scan goes on behind it; where nothing matches, the character is copied. None of the
  patterns of this program matches the empty string, so an empty match is treated as no
  match.
\<close>

function re_sub_from :: "regex \<Rightarrow> string \<Rightarrow> char option \<Rightarrow> string \<Rightarrow> string" where
  "re_sub_from r rep p s =
     (case re_match r (p, s) of
        k # _ \<Rightarrow>
          if length (snd k) < length s then rep @ re_sub_from r rep (fst k) (snd k)
          else (case s of [] \<Rightarrow> [] | c # cs \<Rightarrow> c # re_sub_from r rep (Some c) cs)
      | [] \<Rightarrow> (case s of [] \<Rightarrow> [] | c # cs \<Rightarrow> c # re_sub_from r rep (Some c) cs))"
  by pat_completeness auto
termination
  by (relation "measure (\<lambda>(r, rep, p, s). length s)") auto

definition re_sub :: "regex \<Rightarrow> string \<Rightarrow> string \<Rightarrow> string" where
  "re_sub r rep s = re_sub_from r rep None s"

section \<open>Tables\<close>

text \<open>
  A \<^verbatim>\<open>DataFrame\<close> is its list of column names and its rows. The type of the rows is a
  parameter: the stages that only touch the header work on any table.
\<close>

record 'a dataframe =
  columns :: "string list"
  rows :: "'a list"

section \<open>Header Normalizer: \<^verbatim>\<open>rename_header\<close>\<close>

definition is_sep :: "char \<Rightarrow> bool" where
  \<comment> \<open>the class \<^verbatim>\<open>[\s,()]\<close>\<close>
  "is_sep c = (is_space c \<or> c = CHR '','' \<or> c = CHR ''('' \<or> c = CHR '')'')"

definition is_us :: "char \<Rightarrow> bool" where
  "is_us c = (c = CHR ''_'')"

definition seps_re :: regex where
  \<comment> \<open>\<^verbatim>\<open>[\s,()]+\<close>\<close>
  "seps_re = Plus (Class is_sep)"

definition underscores_re :: regex where
  \<comment> \<open>\<^verbatim>\<open>_+\<close>\<close>
  "underscores_re = Plus (Class is_us)"

definition trailing_re :: regex where
  \<comment> \<open>\<^verbatim>\<open>_+$\<close>\<close>
  "trailing_re = Seq (Plus (Class is_us)) EndAnchor"

definition rename_col :: "string \<Rightarrow> string" where
  "rename_col col =
     re_sub trailing_re ''''
       (re_sub underscores_re ''_''
         (re_sub seps_re ''_'' (py_lower (py_strip col))))"

text \<open>
  The argument is \<open>None\<close> for Python's \<^verbatim>\<open>None\<close>. The result is \<open>Inr\<close> the table for
  \<^verbatim>\<open>(df, None)\<close> and \<open>Inl\<close> the message for \<^verbatim>\<open>(None, error_msg)\<close>. The column names
  are strings, so the comprehension cannot raise.
\<close>

definition rename_header :: "'a dataframe option \<Rightarrow> string + 'a dataframe" where
  "rename_header d =
     (case d of
        None \<Rightarrow> Inl ''Error renaming headers: No DataFrame provided for transformation.''
      | Some df \<Rightarrow> Inr (df\<lparr>columns := map rename_col (columns df)\<rparr>))"


section \<open>Loader: \<^verbatim>\<open>load_dataset\<close>\<close>

definition mandatory_cols :: "string list" where
  "mandatory_cols = [''statistic label'', ''year'', ''sex'', ''unit'', ''value'']"

definition canon_col :: "string \<Rightarrow> string" where
  \<comment> \<open>\<^verbatim>\<open>col.strip().lower()\<close>\<close>
  "canon_col col = py_lower (py_strip col)"

fun join :: "string \<Rightarrow> string list \<Rightarrow> string" where
  "join sep [] = []"
| "join sep [x] = x"
| "join sep (x # y # ys) = x @ sep @ join sep (y # ys)"

definition py_repr_list :: "string list \<Rightarrow> string" where
  \<comment> \<open>what an f-string prints for a list of strings without quotes or escapes in them\<close>
  "py_repr_list xs = ''['' @ join '', '' (map (\<lambda>x. [CHR 0x27] @ x @ [CHR 0x27]) xs) @ '']''"

text \<open>
  The argument is the outcome of \<^verbatim>\<open>pd.read_csv(url)\<close>: \<open>Inl e\<close> when it raises an
  exception whose text is \<open>e\<close>, \<open>Inr df\<close> when it returns the parsed table.
\<close>

definition load_dataset :: "string + 'a dataframe \<Rightarrow> string + 'a dataframe" where
  "load_dataset parsed =
     (case parsed of
        Inl e \<Rightarrow> Inl (''Error loading dataset: '' @ e)
      | Inr df \<Rightarrow>
          (let cols_lower = map canon_col (columns df);
               missing_cols = filter (\<lambda>col. col \<notin> set cols_lower) mandatory_cols
           in if missing_cols \<noteq> []
              then Inl (''Schema error: missing mandatory columns '' @ py_repr_list missing_cols)
              else Inr df))"

section \<open>Aggregator: \<^verbatim>\<open>process_first_year_stats\<close>\<close>

text \<open>
  The rows of the input carry the five attributes of a raw record, typed as in the data
  model: the labels, the sex and the unit are text, the year is an integer. The value is
  what \<^verbatim>\<open>pd.to_numeric(..., errors='coerce')\<close> makes of the cell: \<open>Some x\<close> for a number,
  \<open>None\<close> for a cell that does not parse. Numbers are exact rationals; they stand for the
  64-bit floats of the program, with which they agree as long as sums, means and roundings
  are exact.
\<close>

record raw_record =
  statistic_label :: string
  year :: int
  sex :: string
  unit :: string
  val :: "rat option"

datatype transform_error =
    ColumnSelection
  | IntCastingNaN

datatype cell = Text string | Integer int | Float rat

definition lit_ci :: "char \<Rightarrow> regex" where
  \<comment> \<open>a literal under \<^verbatim>\<open>re.IGNORECASE\<close>\<close>
  "lit_ci c = Class (\<lambda>x. lower_char x = lower_char c)"

definition lits_ci :: "string \<Rightarrow> regex" where
  "lits_ci w = foldr (\<lambda>c r. Seq (lit_ci c) r) w Eps"

definition first_year_re :: regex where
  \<comment> \<open>\<^verbatim>\<open>\b(first year|1st year)\b\<close>, compiled with \<^verbatim>\<open>case=False\<close>\<close>
  "first_year_re = Seq WordB (Seq (Alt (lits_ci ''first year'') (lits_ci ''1st year'')) WordB)"

definition replace_sex :: "string \<Rightarrow> string" where
  "replace_sex s =
     (if s = ''M'' then ''Male'' else if s = ''F'' then ''Female''
      else if s = ''Both'' then ''Both sexes'' else s)"

definition digit :: "nat \<Rightarrow> char" where
  "digit d = char_of (48 + d)"

function show_nat :: "nat \<Rightarrow> string" where
  "show_nat n = (if n < 10 then [digit n] else show_nat (n div 10) @ [digit (n mod 10)])"
  by pat_completeness auto
termination
  by (relation "measure (\<lambda>n. n)") auto

definition show_int :: "int \<Rightarrow> string" where
  \<comment> \<open>\<^verbatim>\<open>astype(str)\<close> on an integer\<close>
  "show_int i = (if i < 0 then ''-'' @ show_nat (nat (- i)) else show_nat (nat i))"

definition year_range_of :: "int \<Rightarrow> string" where
  "year_range_of y = (let year_group = (y div 5) * 5 in show_int year_group @ ''-'' @ show_int (year_group + 4))"

text \<open>A row of the filtered table, with the columns the later steps read.\<close>

record observation =
  year_range :: string
  o_sex :: string
  o_unit :: string
  o_value :: rat

definition prepare :: "raw_record \<Rightarrow> observation" where
  "prepare r =
     \<lparr>year_range = year_range_of (year r),
      o_sex = replace_sex (sex r),
      o_unit = unit r,
      o_value = (case val r of None \<Rightarrow> 0 | Some x \<Rightarrow> x)\<rparr>"

definition is_first_year :: "raw_record \<Rightarrow> bool" where
  "is_first_year r = re_search first_year_re (statistic_label r)"

definition is_count :: "observation \<Rightarrow> bool" where
  "is_count ob = (py_lower (o_unit ob) = ''number'')"

definition is_perc :: "observation \<Rightarrow> bool" where
  "is_perc ob = (py_lower (py_strip (o_unit ob)) \<in> set [''%'', ''percentage''])"

text \<open>
  \<^verbatim>\<open>groupby(['year_range', 'sex'], as_index=False)['value']\<close> followed by \<^verbatim>\<open>sum()\<close> or
  \<^verbatim>\<open>mean()\<close>: one row per pair that occurs, the pairs in ascending order.
\<close>

definition group_keys :: "observation list \<Rightarrow> (string \<times> string) list" where
  "group_keys obs = sort (remdups (map (\<lambda>ob. (year_range ob, o_sex ob)) obs))"

definition group_values :: "observation list \<Rightarrow> string \<times> string \<Rightarrow> rat list" where
  "group_values obs k = map o_value (filter (\<lambda>ob. (year_range ob, o_sex ob) = k) obs)"

definition groupby_sum :: "observation list \<Rightarrow> ((string \<times> string) \<times> rat) list" where
  "groupby_sum obs = map (\<lambda>k. (k, sum_list (group_values obs k))) (group_keys obs)"

definition groupby_mean :: "observation list \<Rightarrow> ((string \<times> string) \<times> rat) list" where
  "groupby_mean obs =
     map (\<lambda>k. (k, sum_list (group_values obs k) / of_nat (length (group_values obs k)))) (group_keys obs)"

text \<open>
  A wide table: the labels of its value columns and, for each label of the index, the
  cells of that row. \<^verbatim>\<open>pivot\<close> sorts both axes; a pair without a row in the summary gives
  a missing cell (\<open>None\<close>, the NaN of pandas).
\<close>

record 'v wide =
  w_columns :: "string list"
  w_rows :: "(string \<times> 'v list) list"

definition pivot :: "((string \<times> string) \<times> rat) list \<Rightarrow> (rat option) wide" where
  "pivot summary =
     (let idx = sort (remdups (map (\<lambda>(k, v). fst k) summary));
          cols = sort (remdups (map (\<lambda>(k, v). snd k) summary))
      in \<lparr>w_columns = cols,
          w_rows = map (\<lambda>yr. (yr, map (\<lambda>s. map_of summary (yr, s)) cols)) idx\<rparr>)"

definition add_suffix :: "string \<Rightarrow> 'v wide \<Rightarrow> 'v wide" where
  "add_suffix suffix w = w\<lparr>w_columns := map (\<lambda>c. c @ suffix) (w_columns w)\<rparr>"

definition round_half_even :: "rat \<Rightarrow> int" where
  "round_half_even x =
     (let f = \<lfloor>x\<rfloor>; d = x - of_int f
      in if d < 1 / 2 then f else if 1 / 2 < d then f + 1 else if even f then f else f + 1)"

definition round1 :: "rat \<Rightarrow> rat" where
  \<comment> \<open>\<^verbatim>\<open>round(1)\<close>\<close>
  "round1 x = of_int (round_half_even (x * 10)) / 10"

text \<open>
  \<^verbatim>\<open>round(0).astype(int)\<close>: the conversion raises as soon as a cell is missing.
\<close>

definition astype_int :: "(rat option) wide \<Rightarrow> transform_error + int wide" where
  "astype_int w =
     (if list_ex (\<lambda>(yr, cs). list_ex (\<lambda>c. c = None) cs) (w_rows w) then Inl IntCastingNaN
      else Inr \<lparr>w_columns = w_columns w,
                w_rows = map (\<lambda>(yr, cs). (yr, map (\<lambda>c. round_half_even (the c)) cs)) (w_rows w)\<rparr>)"

definition fillna_round :: "(rat option) wide \<Rightarrow> rat wide" where
  \<comment> \<open>\<^verbatim>\<open>fillna(0.0).round(1)\<close>\<close>
  "fillna_round w =
     \<lparr>w_columns = w_columns w,
      w_rows = map (\<lambda>(yr, cs). (yr, map (\<lambda>c. round1 (case c of None \<Rightarrow> 0 | Some x \<Rightarrow> x)) cs)) (w_rows w)\<rparr>"

text \<open>
  \<^verbatim>\<open>pd.merge(..., on='year_range', how='inner').reset_index()\<close>: the rows of the left
  table whose label is in the index of the right table, each followed by the cells of the
  right row.
\<close>

definition merge_inner :: "int wide \<Rightarrow> rat wide \<Rightarrow> cell list dataframe" where
  "merge_inner l r =
     \<lparr>columns = ''year_range'' # w_columns l @ w_columns r,
      rows = concat (map (\<lambda>(yr, cs). case map_of (w_rows r) yr of
                                        None \<Rightarrow> []
                                      | Some ps \<Rightarrow> [Text yr # map Integer cs @ map Float ps])
                         (w_rows l))\<rparr>"

text \<open>
  The selections by name. \<^verbatim>\<open>df[name]\<close> raises \<^verbatim>\<open>KeyError\<close> when no column has the name.
  When several columns have it the selection is a table, not a column, and the step that
  uses it raises (\<^verbatim>\<open>.str\<close>, \<^verbatim>\<open>pd.to_numeric\<close>, the assignment of a table to one column,
  the grouping by an ambiguous name). Both happen before the pivots are built.
\<close>

definition header_ok :: "string list \<Rightarrow> bool" where
  "header_ok cols =
     (list_all (\<lambda>name. count_list cols name = 1) mandatory_cols \<and>
      count_list cols ''year_group'' \<le> 1 \<and> count_list cols ''year_range'' \<le> 1)"

definition first_year_obs :: "raw_record dataframe \<Rightarrow> observation list" where
  \<comment> \<open>the table after lines 62 to 71\<close>
  "first_year_obs df = map prepare (filter is_first_year (rows df))"

definition df_counts :: "observation list \<Rightarrow> observation list" where
  "df_counts obs = filter is_count obs"

definition df_perc :: "observation list \<Rightarrow> observation list" where
  "df_perc obs = filter is_perc obs"

definition counts_wide :: "observation list \<Rightarrow> (rat option) wide" where
  "counts_wide obs = add_suffix ''_count'' (pivot (groupby_sum (df_counts obs)))"

definition perc_wide :: "observation list \<Rightarrow> (rat option) wide" where
  "perc_wide obs = add_suffix ''_percent'' (pivot (groupby_mean (df_perc obs)))"

definition summarise :: "observation list \<Rightarrow> transform_error + cell list dataframe" where
  \<comment> \<open>lines 74 to 93\<close>
  "summarise obs =
     (case astype_int (counts_wide obs) of
        Inl e \<Rightarrow> Inl e
      | Inr cw \<Rightarrow> Inr (merge_inner cw (fillna_round (perc_wide obs))))"

text \<open>
  The first component of the result is the caller's table after the call: the assignment
  to \<^verbatim>\<open>df.columns\<close> changes the object that was passed in, every later step works on a
  copy. The second component is \<open>Inr\<close> the summary for \<^verbatim>\<open>(merged, None)\<close> and \<open>Inl\<close> the
  cause for \<^verbatim>\<open>(None, error_msg)\<close>.
\<close>

definition process_first_year_stats ::
  "raw_record dataframe \<Rightarrow> raw_record dataframe \<times> (transform_error + cell list dataframe)" where
  "process_first_year_stats df =
     (let df1 = df\<lparr>columns := map canon_col (columns df)\<rparr>
      in (df1,
          if \<not> header_ok (columns df1) then Inl ColumnSelection
          else summarise (first_year_obs df1)))"

section \<open>Persister: \<^verbatim>\<open>save_outputs\<close>\<close>

text \<open>
  The file system and the log are the state. \<open>write_error fmt path\<close> says how a write
  of that format to that path ends: \<open>None\<close> when it succeeds, \<open>Some e\<close> when it raises an
  exception with text \<open>e\<close> (a directory that does not exist, a missing permission, no
  Parquet engine). A write that raises leaves the files as they were.
\<close>

datatype file_format = CSV | Parquet

datatype level = INFO | ERROR

record 'a world =
  write_error :: "file_format \<Rightarrow> string \<Rightarrow> string option"
  files :: "string \<rightharpoonup> file_format \<times> 'a dataframe"
  log :: "(level \<times> string) list"

definition write_file :: "file_format \<Rightarrow> 'a dataframe \<Rightarrow> string \<Rightarrow> 'a world \<Rightarrow> string + 'a world" where
  "write_file fmt df path w =
     (case write_error w fmt path of
        Some e \<Rightarrow> Inl e
      | None \<Rightarrow> Inr (w\<lparr>files := (files w)(path \<mapsto> (fmt, df))\<rparr>))"

definition logging :: "level \<Rightarrow> string \<Rightarrow> 'a world \<Rightarrow> 'a world" where
  "logging lv msg w = w\<lparr>log := log w @ [(lv, msg)]\<rparr>"

definition save_outputs :: "'a dataframe \<Rightarrow> string \<Rightarrow> string \<Rightarrow> 'a world \<Rightarrow> 'a world" where
  "save_outputs df csv_path parquet_path w =
     (let w1 = (case write_file CSV df csv_path w of
                  Inr w' \<Rightarrow> logging INFO (''Data saved to CSV: '' @ csv_path) w'
                | Inl e \<Rightarrow> logging ERROR (''Error saving CSV to '' @ csv_path @ '': '' @ e) w)
      in (case write_file Parquet df parquet_path w1 of
            Inr w' \<Rightarrow> logging INFO (''Data saved to Parquet: '' @ parquet_path) w'
          | Inl e \<Rightarrow> logging ERROR (''Error saving Parquet to '' @ parquet_path @ '': '' @ e) w1))"

section \<open>Notions of the specification and of the proofs\<close>

subsection \<open>Closed forms for \<^verbatim>\<open>rename_header\<close>\<close>

text \<open>
  Closed forms of the matches and substitutions of \<^verbatim>\<open>rename_header\<close>, and the shape of
  a column name it has normalised. They are used in the proofs only.
\<close>

fun run_ends :: "(char \<Rightarrow> bool) \<Rightarrow> string \<Rightarrow> cursor list" where
  "run_ends P [] = []"
| "run_ends P (c # cs) = (if P c then run_ends P cs @ [(Some c, cs)] else [])"

function collapse :: "(char \<Rightarrow> bool) \<Rightarrow> string \<Rightarrow> string \<Rightarrow> string" where
  "collapse P rep [] = []"
| "collapse P rep (c # cs) =
     (if P c then rep @ collapse P rep (dropWhile P cs) else c # collapse P rep cs)"
  by pat_completeness auto
termination
  by (relation "measure (\<lambda>(P, rep, s). length s)") (auto simp: length_dropWhile_le less_Suc_eq_le)

fun drop_trailing :: "string \<Rightarrow> string" where
  "drop_trailing [] = []"
| "drop_trailing (c # cs) = (if is_us c \<and> list_all is_us cs then [] else c # drop_trailing cs)"

fun no_double :: "string \<Rightarrow> bool" where
  "no_double (x # y # r) = (\<not> (is_us x \<and> is_us y) \<and> no_double (y # r))"
| "no_double _ = True"

definition normal :: "string \<Rightarrow> bool" where
  "normal d = (list_all (\<lambda>x. \<not> is_sep x \<and> \<not> is_upper x) d \<and> no_double d \<and> (d = [] \<or> \<not> is_us (last d)))"

subsection \<open>The words of the specification\<close>

text \<open>
  The comparison of the Loader in the words of the specification: a column is present
  when some column of the table equals it once both are trimmed and lowercased.
\<close>

definition present :: "string \<Rightarrow> string list \<Rightarrow> bool" where
  "present name cols = (\<exists>col\<in>set cols. canon_col col = canon_col name)"

text \<open>
  Example inputs of the Loader, the Persister and the Aggregator, after the unit tests of
  the repository: a header without \<^verbatim>\<open>sex\<close>, a file system in which the CSV destination
  cannot be written, and a header without most mandatory columns.
\<close>

definition schema_example :: "string list" where
  "schema_example = [''statistic label'', ''year'', ''unit'', ''value'']"

definition unwritable_csv :: "unit world" where
  "unwritable_csv =
     \<lparr>write_error = (\<lambda>fmt path. if path = ''nonexistent_dir/file.csv''
                                  then Some ''Cannot save file into a non-existent directory'' else None),
      files = Map.empty, log = []\<rparr>"

definition bad_header_example :: "raw_record dataframe" where
  "bad_header_example = \<lparr>columns = ['' Year '', ''SEX''], rows = []\<rparr>"

text \<open>
  The filter of the Aggregator in the words of the specification: the lowercased label
  contains the phrase, with no word character right before it and none right after it.
\<close>

definition contains_whole_word :: "string \<Rightarrow> string \<Rightarrow> bool" where
  "contains_whole_word w t =
     (\<exists>pre post. py_lower t = pre @ w @ post \<and>
        (pre = [] \<or> \<not> is_word (last pre)) \<and> (post = [] \<or> \<not> is_word (hd post)))"

definition spec_first_year :: "string \<Rightarrow> bool" where
  "spec_first_year label =
     (contains_whole_word ''first year'' label \<or> contains_whole_word ''1st year'' label)"

text \<open>The cursor at which a search has skipped the prefix \<open>a\<close> of the subject.\<close>

definition prev_of :: "char option \<Rightarrow> string \<Rightarrow> char option" where
  "prev_of p a = (if a = [] then p else Some (last a))"

definition matches_word :: "string \<Rightarrow> char option \<Rightarrow> string \<Rightarrow> bool" where
  "matches_word w p s =
     (length w \<le> length s \<and> py_lower (take (length w) s) = py_lower w \<and> at_boundary p s \<and>
      at_boundary (prev_of p (take (length w) s)) (drop (length w) s))"

text \<open>
  The labels of the index of a wide table, the \<^verbatim>\<open>year_range\<close> labels of the rows of a
  summary, and whether a label appears in what the Aggregator returns (in an error there
  is no row).
\<close>

definition index_of :: "'v wide \<Rightarrow> string list" where
  "index_of w = map fst (w_rows w)"

definition output_ranges :: "cell list dataframe \<Rightarrow> string list" where
  "output_ranges out = concat (map (\<lambda>row. case row of Text yr # _ \<Rightarrow> [yr] | _ \<Rightarrow> []) (rows out))"

definition appears_in_output :: "string \<Rightarrow> transform_error + cell list dataframe \<Rightarrow> bool" where
  "appears_in_output yr res = (case res of Inl e \<Rightarrow> False | Inr out \<Rightarrow> yr \<in> set (output_ranges out))"

definition key_of :: "observation \<Rightarrow> string \<times> string" where
  "key_of ob = (year_range ob, o_sex ob)"

subsection \<open>Example tables\<close>

text \<open>
  The first is the table of \<^verbatim>\<open>test_process_first_year_stats_mixed_units\<close>;
  the second adds a row whose unit has surrounding blanks. In the third the counts have no
  cell for one pair of period and sex; in the fourth the percentages have none. In the
  last one a period has counts only.
\<close>

definition std_header :: "string list" where
  "std_header = [''statistic label'', ''year'', ''sex'', ''unit'', ''value'']"

definition mixed_units_example :: "raw_record dataframe" where
  "mixed_units_example = \<lparr>columns = std_header,
     rows = [\<lparr>statistic_label = ''First Year Data'', year = 2010, sex = ''Male'', unit = ''Number'', val = Some 100\<rparr>,
             \<lparr>statistic_label = ''First Year Data'', year = 2010, sex = ''Male'', unit = ''%'', val = Some 50\<rparr>]\<rparr>"

definition mixed_units_summary :: "cell list dataframe" where
  "mixed_units_summary = \<lparr>columns = [''year_range'', ''Male_count'', ''Male_percent''],
     rows = [[Text ''2010-2014'', Integer 100, Float 50]]\<rparr>"

definition stray_unit_example :: "raw_record dataframe" where
  "stray_unit_example = \<lparr>columns = std_header,
     rows = [\<lparr>statistic_label = ''First Year Data'', year = 2010, sex = ''Male'', unit = ''Number'', val = Some 100\<rparr>,
             \<lparr>statistic_label = ''First Year Data'', year = 2010, sex = ''Male'', unit = '' number '', val = Some 7\<rparr>,
             \<lparr>statistic_label = ''First Year Data'', year = 2010, sex = ''Male'', unit = ''%'', val = Some 50\<rparr>]\<rparr>"

definition ragged_counts_example :: "raw_record dataframe" where
  "ragged_counts_example = \<lparr>columns = std_header,
     rows = [\<lparr>statistic_label = ''First Year'', year = 2000, sex = ''Male'', unit = ''number'', val = Some 10\<rparr>,
             \<lparr>statistic_label = ''First Year'', year = 2005, sex = ''Female'', unit = ''number'', val = Some 20\<rparr>,
             \<lparr>statistic_label = ''First Year'', year = 2000, sex = ''Male'', unit = ''%'', val = Some 50\<rparr>]\<rparr>"

definition ragged_percent_example :: "raw_record dataframe" where
  "ragged_percent_example = \<lparr>columns = std_header,
     rows = [\<lparr>statistic_label = ''First Year'', year = 2000, sex = ''Male'', unit = ''number'', val = Some 10\<rparr>,
             \<lparr>statistic_label = ''First Year'', year = 2005, sex = ''Male'', unit = ''number'', val = Some 20\<rparr>,
             \<lparr>statistic_label = ''First Year'', year = 2000, sex = ''Male'', unit = ''%'', val = Some 50\<rparr>,
             \<lparr>statistic_label = ''First Year'', year = 2005, sex = ''Female'', unit = ''%'', val = Some 60\<rparr>]\<rparr>"

definition counts_only_example :: "raw_record dataframe" where
  "counts_only_example = \<lparr>columns = std_header,
     rows = [\<lparr>statistic_label = ''First Year'', year = 2000, sex = ''Male'', unit = ''number'', val = Some 10\<rparr>,
             \<lparr>statistic_label = ''First Year'', year = 2000, sex = ''Male'', unit = ''%'', val = Some 50\<rparr>,
             \<lparr>statistic_label = ''First Year'', year = 2005, sex = ''Male'', unit = ''number'', val = Some 20\<rparr>]\<rparr>"

definition counts_only_summary :: "cell list dataframe" where
  "counts_only_summary = \<lparr>columns = [''year_range'', ''Male_count'', ''Male_percent''],
     rows = [[Text ''2000-2004'', Integer 10, Float 50]]\<rparr>"

subsection \<open>The summary in the words of the specification\<close>







subsection \<open>Further example tables\<close>



definition unit_variants_example :: "raw_record dataframe" where
  "unit_variants_example = \<lparr>columns = std_header,
     rows = [\<lparr>statistic_label = ''First Year Data'', year = 2010, sex = ''Male'', unit = ''NUMBER'', val = Some 100\<rparr>,
             \<lparr>statistic_label = ''First Year Data'', year = 2010, sex = ''Male'', unit = '' number '', val = Some 7\<rparr>,
             \<lparr>statistic_label = ''First Year Data'', year = 2010, sex = ''Male'', unit = '' % '', val = Some 50\<rparr>,
             \<lparr>statistic_label = ''First Year Data'', year = 2010, sex = ''Male'', unit = CHR 0xA0 # ''Percentage '', val = Some 60\<rparr>]\<rparr>"

definition unit_variants_summary :: "cell list dataframe" where
  "unit_variants_summary = \<lparr>columns = [''year_range'', ''Male_count'', ''Male_percent''],
     rows = [[Text ''2010-2014'', Integer 100, Float 55]]\<rparr>"

definition latin1_header_example :: "raw_record dataframe" where
  "latin1_header_example =
     \<lparr>columns = ['' Statistic Label'', ''YEAR'', ''Sex'' @ [CHR 0xA0], ''Unit'', ''VALUE'', CHR 0xC9 # ''COLE''],
      rows = rows ragged_counts_example\<rparr>"

definition nbsp_schema_example :: "string list" where
  "nbsp_schema_example = [''statistic label'', CHR 0xA0 # ''year'', ''unit'', ''value'']"

definition capital_schema_example :: "string list" where
  "capital_schema_example = [''Statistic Label'', '' YEAR'', ''Value '', ''Region'']"

section \<open>Substitution by the patterns of \<^verbatim>\<open>rename_header\<close>\<close>

declare re_sub_from.simps [simp del]

lemma plus_iter_Class:
  "length s < n \<Longrightarrow> plus_iter (\<lambda>k. re_match (Class P) k) n (p, s) = run_ends P s"
proof (induction s arbitrary: n p)
  case Nil
  then show ?case by (cases n) simp_all
next
  case (Cons c cs)
  then obtain m where n: "n = Suc m" and m: "length cs < m"
    by (cases n) auto
  show ?case
    using Cons.IH [OF m] by (simp add: n)
qed

lemma re_match_Plus_Class: "re_match (Plus (Class P)) (p, s) = run_ends P s"
  by (simp add: plus_iter_Class del: plus_iter.simps)

lemma run_ends_snd_hd:
  "P c \<Longrightarrow> run_ends P (c # cs) \<noteq> [] \<and> snd (hd (run_ends P (c # cs))) = dropWhile P cs"
proof (induction cs arbitrary: c)
  case Nil
  then show ?case by simp
next
  case (Cons d ds)
  show ?case
  proof (cases "P d")
    case False
    then show ?thesis using Cons.prems by simp
  next
    case True
    from Cons.IH [OF True] have ne: "run_ends P (d # ds) \<noteq> []"
      and sh: "snd (hd (run_ends P (d # ds))) = dropWhile P ds" by blast+
    have "run_ends P (c # d # ds) = run_ends P (d # ds) @ [(Some c, d # ds)]"
      using Cons.prems by simp
    then show ?thesis using ne sh True by (simp del: run_ends.simps)
  qed
qed

lemma re_sub_from_Nil: "re_sub_from r rep p [] = []"
  by (subst re_sub_from.simps) (simp split: list.splits)

lemma re_sub_from_nomatch:
  "re_match r (p, c # cs) = [] \<Longrightarrow> re_sub_from r rep p (c # cs) = c # re_sub_from r rep (Some c) cs"
  by (subst re_sub_from.simps) simp

lemma re_sub_from_match:
  "re_match r (p, s) = k # ks \<Longrightarrow> length (snd k) < length s \<Longrightarrow>
   re_sub_from r rep p s = rep @ re_sub_from r rep (fst k) (snd k)"
  by (subst re_sub_from.simps) simp

lemma re_sub_from_Plus_Class:
  "re_sub_from (Plus (Class P)) rep p s = collapse P rep s"
proof (induction s arbitrary: p rule: length_induct)
  case (1 s)
  show ?case
  proof (cases s)
    case Nil
    then show ?thesis by (simp add: re_sub_from_Nil)
  next
    case (Cons c cs)
    show ?thesis
    proof (cases "P c")
      case False
      have "re_match (Plus (Class P)) (p, c # cs) = []"
        using False by (simp only: re_match_Plus_Class) simp
      then have "re_sub_from (Plus (Class P)) rep p (c # cs) =
          c # re_sub_from (Plus (Class P)) rep (Some c) cs"
        by (rule re_sub_from_nomatch)
      moreover have "re_sub_from (Plus (Class P)) rep (Some c) cs = collapse P rep cs"
        using 1 Cons by simp
      ultimately show ?thesis
        using False Cons by simp
    next
      case True
      from run_ends_snd_hd [of P c cs] True
      obtain k ks where ks: "run_ends P (c # cs) = k # ks" and k: "snd k = dropWhile P cs"
        by (cases "run_ends P (c # cs)") auto
      have len: "length (dropWhile P cs) < length s"
        using Cons by (simp add: length_dropWhile_le less_Suc_eq_le)
      have m: "re_match (Plus (Class P)) (p, s) = k # ks"
        using ks Cons by (simp only: re_match_Plus_Class)
      have "re_sub_from (Plus (Class P)) rep p s =
          rep @ re_sub_from (Plus (Class P)) rep (fst k) (snd k)"
        using m len k by (intro re_sub_from_match) simp_all
      moreover have "re_sub_from (Plus (Class P)) rep (fst k) (dropWhile P cs) =
          collapse P rep (dropWhile P cs)"
        using 1 len by simp
      ultimately show ?thesis
        using True Cons k by simp
    qed
  qed
qed

lemma newline_is_sep: "is_sep (CHR 0x0A)"
  by (simp add: is_sep_def is_space_def)

lemma us_not_sep: "\<not> is_sep CHR ''_''" "\<not> is_upper CHR ''_''"
  by (simp_all add: is_sep_def is_space_def is_upper_def)

lemma lower_not_upper: "\<not> is_upper (lower_char c)"
  by (auto simp: lower_char_def is_upper_def Let_def)

lemma trailing_match:
  "CHR 0x0A \<notin> set s \<Longrightarrow>
   concat (map (\<lambda>k. re_match EndAnchor k) (run_ends is_us s)) =
     (if s \<noteq> [] \<and> list_all is_us s then [(Some CHR ''_'', [])] else [])"
proof (induction s)
  case Nil
  then show ?case by simp
next
  case (Cons c cs)
  from Cons.prems have nl: "CHR 0x0A \<notin> set cs" and cs1: "cs \<noteq> [CHR 0x0A]"
    by auto
  show ?case
  proof (cases "is_us c")
    case False
    then show ?thesis by simp
  next
    case True
    then have c: "c = CHR ''_''" by (simp add: is_us_def)
    have "concat (map (\<lambda>k. re_match EndAnchor k) (run_ends is_us (c # cs))) =
        concat (map (\<lambda>k. re_match EndAnchor k) (run_ends is_us cs)) @ re_match EndAnchor (Some c, cs)"
      using True by simp
    also have "\<dots> = (if cs \<noteq> [] \<and> list_all is_us cs then [(Some CHR ''_'', [])] else []) @
        (if cs = [] then [(Some c, [])] else [])"
      using Cons.IH [OF nl] cs1 by simp
    also have "\<dots> = (if c # cs \<noteq> [] \<and> list_all is_us (c # cs) then [(Some CHR ''_'', [])] else [])"
      using True c by (cases "cs = []") simp_all
    finally show ?thesis .
  qed
qed

lemma re_match_trailing:
  "CHR 0x0A \<notin> set s \<Longrightarrow>
   re_match trailing_re (p, s) = (if s \<noteq> [] \<and> list_all is_us s then [(Some CHR ''_'', [])] else [])"
proof -
  assume nl: "CHR 0x0A \<notin> set s"
  have "re_match trailing_re (p, s) = concat (map (\<lambda>k. re_match EndAnchor k) (run_ends is_us s))"
    unfolding trailing_re_def by (simp only: re_match.simps(5) re_match_Plus_Class)
  then show ?thesis
    using trailing_match [OF nl] by simp
qed

lemma re_sub_from_trailing:
  "CHR 0x0A \<notin> set s \<Longrightarrow> re_sub_from trailing_re [] p s = drop_trailing s"
proof (induction s arbitrary: p)
  case Nil
  then show ?case by (simp add: re_sub_from_Nil)
next
  case (Cons c cs)
  show ?case
  proof (cases "is_us c \<and> list_all is_us cs")
    case True
    then have "re_match trailing_re (p, c # cs) = [(Some CHR ''_'', [])]"
      using re_match_trailing [OF Cons.prems, of p] by simp
    then have "re_sub_from trailing_re [] p (c # cs) = [] @ re_sub_from trailing_re [] (Some CHR ''_'') []"
      using re_sub_from_match [of trailing_re p "c # cs" "(Some CHR ''_'', [])" "[]" "[]"] by simp
    then show ?thesis using True by (simp add: re_sub_from_Nil)
  next
    case False
    then have "re_match trailing_re (p, c # cs) = []"
      using re_match_trailing [OF Cons.prems, of p] by auto
    then have "re_sub_from trailing_re [] p (c # cs) = c # re_sub_from trailing_re [] (Some c) cs"
      by (rule re_sub_from_nomatch)
    then show ?thesis using False Cons by auto
  qed
qed

lemma collapse_set:
  "x \<in> set (collapse P rep s) \<Longrightarrow> (x \<in> set s \<and> \<not> P x) \<or> x \<in> set rep"
proof (induction P rep s rule: collapse.induct)
  case (1 P rep)
  then show ?case by simp
next
  case (2 P rep c cs)
  then show ?case
    by (auto split: if_splits dest: set_dropWhileD)
qed

lemma collapse_id: "list_all (\<lambda>x. \<not> P x) s \<Longrightarrow> collapse P rep s = s"
  by (induction s) auto

lemma collapse_hd:
  "s = [] \<or> \<not> P (hd s) \<Longrightarrow> collapse P rep s = [] \<or> \<not> P (hd (collapse P rep s))"
  by (cases s) auto

lemma no_double_Cons:
  "no_double (x # t) = ((is_us x \<longrightarrow> t = [] \<or> \<not> is_us (hd t)) \<and> no_double t)"
  by (cases t) auto

lemma no_double_collapse: "no_double (collapse is_us ''_'' s)"
proof (induction is_us "''_''" s rule: collapse.induct)
  case 1
  then show ?case by simp
next
  case (2 c cs)
  show ?case
  proof (cases "is_us c")
    case True
    have "dropWhile is_us cs = [] \<or> \<not> is_us (hd (dropWhile is_us cs))"
      using hd_dropWhile [of is_us cs] by blast
    then have "collapse is_us ''_'' (dropWhile is_us cs) = [] \<or>
        \<not> is_us (hd (collapse is_us ''_'' (dropWhile is_us cs)))"
      by (rule collapse_hd [of "dropWhile is_us cs" is_us "''_''"])
    with 2(1) [OF True] True
    show ?thesis by (simp add: no_double_Cons del: no_double.simps(1))
  next
    case False
    with 2(2) show ?thesis by (simp add: no_double_Cons del: no_double.simps(1))
  qed
qed

lemma collapse_no_double_id: "no_double s \<Longrightarrow> collapse is_us ''_'' s = s"
proof (induction s)
  case Nil
  then show ?case by simp
next
  case (Cons c cs)
  then have nd: "no_double cs" and h: "is_us c \<longrightarrow> cs = [] \<or> \<not> is_us (hd cs)"
    by (simp_all add: no_double_Cons del: no_double.simps(1))
  show ?case
  proof (cases "is_us c")
    case True
    with h have "dropWhile is_us cs = cs" by (cases cs) auto
    moreover have "c = CHR ''_''" using True by (simp add: is_us_def)
    ultimately show ?thesis using True Cons.IH [OF nd] by simp
  next
    case False
    with Cons.IH [OF nd] show ?thesis by simp
  qed
qed

lemma drop_trailing_set: "set (drop_trailing s) \<subseteq> set s"
  by (induction s) auto

lemma drop_trailing_Nil_iff: "drop_trailing s = [] \<longleftrightarrow> list_all is_us s"
  by (induction s) auto

lemma drop_trailing_hd: "s \<noteq> [] \<Longrightarrow> \<not> is_us (hd s) \<Longrightarrow> hd (drop_trailing s) = hd s \<and> drop_trailing s \<noteq> []"
  by (cases s) auto

lemma no_double_drop_trailing: "no_double s \<Longrightarrow> no_double (drop_trailing s)"
proof (induction s)
  case Nil
  then show ?case by simp
next
  case (Cons c cs)
  then have nd: "no_double cs" and h: "is_us c \<longrightarrow> cs = [] \<or> \<not> is_us (hd cs)"
    by (simp_all add: no_double_Cons del: no_double.simps(1))
  have "is_us c \<longrightarrow> drop_trailing cs = [] \<or> \<not> is_us (hd (drop_trailing cs))"
    using h drop_trailing_hd [of cs] by (cases "cs = []") auto
  with Cons.IH [OF nd] show ?case
    by (simp add: no_double_Cons del: no_double.simps(1))
qed

lemma drop_trailing_last: "drop_trailing s = [] \<or> \<not> is_us (last (drop_trailing s))"
proof (induction s)
  case Nil
  then show ?case by simp
next
  case (Cons c cs)
  then show ?case
    by (auto simp: drop_trailing_Nil_iff)
qed

lemma drop_trailing_id: "s = [] \<or> \<not> is_us (last s) \<Longrightarrow> drop_trailing s = s"
proof (induction s)
  case Nil
  then show ?case by simp
next
  case (Cons c cs)
  have "\<not> (is_us c \<and> list_all is_us cs)"
  proof
    assume a: "is_us c \<and> list_all is_us cs"
    then have "list_all is_us (c # cs)" by simp
    then have "is_us (last (c # cs))"
      unfolding list_all_iff using last_in_set [of "c # cs"] by blast
    with Cons.prems show False by simp
  qed
  moreover have "cs = [] \<or> \<not> is_us (last cs)"
    using Cons.prems by (cases cs) auto
  ultimately show ?case using Cons.IH by simp
qed

lemma py_strip_id: "list_all (\<lambda>x. \<not> is_space x) s \<Longrightarrow> py_strip s = s"
proof -
  assume a: "list_all (\<lambda>x. \<not> is_space x) s"
  have d: "\<And>xs. list_all (\<lambda>x. \<not> is_space x) xs \<Longrightarrow> dropWhile is_space xs = xs"
    by (case_tac xs) auto
  from a have "list_all (\<lambda>x. \<not> is_space x) (rev s)" by (simp add: list_all_iff)
  with a show ?thesis by (simp add: py_strip_def d)
qed

lemma py_lower_id: "list_all (\<lambda>x. \<not> is_upper x) s \<Longrightarrow> py_lower s = s"
  by (induction s) (auto simp: py_lower_def lower_char_def)

lemma rename_col_eq:
  "rename_col col =
     drop_trailing (collapse is_us ''_'' (collapse is_sep ''_'' (py_lower (py_strip col))))"
proof -
  let ?b = "collapse is_sep ''_'' (py_lower (py_strip col))"
  have "CHR 0x0A \<notin> set ?b"
    using collapse_set [of "CHR 0x0A" is_sep "''_''"] newline_is_sep by auto
  then have "CHR 0x0A \<notin> set (collapse is_us ''_'' ?b)"
    using collapse_set [of "CHR 0x0A" is_us "''_''" ?b] by auto
  then show ?thesis
    by (simp add: rename_col_def re_sub_def seps_re_def underscores_re_def
        re_sub_from_Plus_Class re_sub_from_trailing)
qed

lemma normal_rename_col: "normal (rename_col col)"
proof -
  let ?a = "py_lower (py_strip col)"
  let ?b = "collapse is_sep ''_'' ?a"
  let ?c = "collapse is_us ''_'' ?b"
  have a: "\<forall>x\<in>set ?a. \<not> is_upper x"
    by (auto simp: py_lower_def lower_not_upper)
  have b: "\<forall>x\<in>set ?b. \<not> is_sep x \<and> \<not> is_upper x"
    using collapse_set [of _ is_sep "''_''" ?a] a us_not_sep by auto
  have c: "\<forall>x\<in>set ?c. \<not> is_sep x \<and> \<not> is_upper x"
    using collapse_set [of _ is_us "''_''" ?b] b us_not_sep by auto
  have "\<forall>x\<in>set (drop_trailing ?c). \<not> is_sep x \<and> \<not> is_upper x"
    using c drop_trailing_set [of ?c] by blast
  moreover have "no_double (drop_trailing ?c)"
    by (intro no_double_drop_trailing no_double_collapse)
  ultimately show ?thesis
    using drop_trailing_last [of ?c]
    by (simp add: normal_def rename_col_eq list_all_iff)
qed

lemma rename_col_normal: "normal d \<Longrightarrow> rename_col d = d"
proof -
  assume n: "normal d"
  then have sp: "list_all (\<lambda>x. \<not> is_space x) d" and up: "list_all (\<lambda>x. \<not> is_upper x) d"
    and se: "list_all (\<lambda>x. \<not> is_sep x) d"
    by (auto simp: normal_def list_all_iff is_sep_def)
  from n have nd: "no_double d" and l: "d = [] \<or> \<not> is_us (last d)"
    by (auto simp: normal_def)
  show ?thesis
    by (simp add: rename_col_eq py_strip_id [OF sp] py_lower_id [OF up] collapse_id [OF se]
        collapse_no_double_id [OF nd] drop_trailing_id [OF l])
qed

lemma rename_col_idem: "rename_col (rename_col col) = rename_col col"
  by (rule rename_col_normal [OF normal_rename_col])

section \<open>Header Normalizer: the claims\<close>

lemma rename_col_example:
  "map rename_col [''Col   1'', '' Col(2)'', ''Col,,,,3'', ''col 4'', ''COL  5''] =
     [''col_1'', ''col_2'', ''col_3'', ''col_4'', ''col_5'']"
  by code_simp

text \<open>
  Claim C4. \<^verbatim>\<open>rename_header\<close> is idempotent on the column names: on every table it
  succeeds, and applied to its own result it succeeds again and returns that result
  unchanged, so the column names after two applications are those after one. On the
  columns \<^verbatim>\<open>["Col   1", " Col(2)", "Col,,,,3", "col 4", "COL  5"]\<close> one application
  yields \<^verbatim>\<open>["col_1", "col_2", "col_3", "col_4", "col_5"]\<close>.
\<close>

theorem rename_header_idempotent:
  "(\<exists>df1 df2. rename_header (Some df) = Inr df1 \<and> rename_header (Some df1) = Inr df2 \<and>
      columns df2 = columns df1) \<and>
   rename_header (Some \<lparr>columns = [''Col   1'', '' Col(2)'', ''Col,,,,3'', ''col 4'', ''COL  5''], rows = rs\<rparr>) =
     Inr \<lparr>columns = [''col_1'', ''col_2'', ''col_3'', ''col_4'', ''col_5''], rows = rs\<rparr>"
proof
  let ?df1 = "df\<lparr>columns := map rename_col (columns df)\<rparr>"
  have "rename_header (Some df) = Inr ?df1"
    by (simp add: rename_header_def)
  moreover have "rename_header (Some ?df1) = Inr ?df1"
    by (simp add: rename_header_def rename_col_idem)
  ultimately show "\<exists>df1 df2. rename_header (Some df) = Inr df1 \<and>
      rename_header (Some df1) = Inr df2 \<and> columns df2 = columns df1"
    by blast
next
  show "rename_header (Some \<lparr>columns = [''Col   1'', '' Col(2)'', ''Col,,,,3'', ''col 4'', ''COL  5''], rows = rs\<rparr>) =
     Inr \<lparr>columns = [''col_1'', ''col_2'', ''col_3'', ''col_4'', ''col_5''], rows = rs\<rparr>"
    using rename_col_example by (simp add: rename_header_def)
qed

text \<open>
  Claim C8. \<^verbatim>\<open>rename_header\<close> applied to a table with zero columns returns that table
  unchanged, and no error.
\<close>

theorem rename_header_no_columns:
  "rename_header (Some (df\<lparr>columns := []\<rparr>)) = Inr (df\<lparr>columns := []\<rparr>)"
  by (simp add: rename_header_def)

section \<open>Loader and Persister: the claims\<close>

lemma canon_mandatory: "m \<in> set mandatory_cols \<Longrightarrow> canon_col m = m"
proof -
  have "list_all (\<lambda>m. canon_col m = m) mandatory_cols"
    by code_simp
  then show "m \<in> set mandatory_cols \<Longrightarrow> canon_col m = m"
    by (simp add: list_all_iff)
qed

lemma missing_filter:
  "filter (\<lambda>col. col \<notin> set (map canon_col cols)) mandatory_cols =
   filter (\<lambda>m. \<not> present m cols) mandatory_cols"
proof (rule filter_cong [OF refl])
  fix m assume "m \<in> set mandatory_cols"
  then have "canon_col m = m" by (rule canon_mandatory)
  then show "(m \<notin> set (map canon_col cols)) = (\<not> present m cols)"
    by (auto simp: present_def)
qed

text \<open>
  Claim C5. When the parsed table lacks at least one mandatory column, under the
  comparison of trimmed and lowercased names, \<^verbatim>\<open>load_dataset\<close> returns no table but the
  schema error message, and the message lists exactly the mandatory columns that are
  missing, in the order of \<^verbatim>\<open>mandatory_cols\<close>.
\<close>

theorem load_dataset_missing:
  assumes "\<exists>m\<in>set mandatory_cols. \<not> present m (columns df)"
  shows "load_dataset (Inr df) =
    Inl (''Schema error: missing mandatory columns '' @
         py_repr_list (filter (\<lambda>m. \<not> present m (columns df)) mandatory_cols))"
proof -
  from assms have "filter (\<lambda>m. \<not> present m (columns df)) mandatory_cols \<noteq> []"
    by (auto simp: filter_empty_conv)
  then show ?thesis
    unfolding load_dataset_def Let_def missing_filter by simp
qed

text \<open>
  Claim C7. \<^verbatim>\<open>save_outputs\<close> attempts the two writes independently: afterwards the CSV
  file is there exactly when its write succeeds and the Parquet file exactly when its
  write succeeds, whatever the other write did. In particular, when the CSV write raises
  and the Parquet write succeeds, the Parquet file is created, the CSV file is not, and an
  error naming CSV is logged. The function returns the new state in every case: no
  exception reaches the caller.
\<close>

theorem save_outputs_independent:
  "files (save_outputs df csv_path parquet_path w) =
     (let f1 = (if write_error w CSV csv_path = None then (files w)(csv_path \<mapsto> (CSV, df)) else files w)
      in if write_error w Parquet parquet_path = None then f1(parquet_path \<mapsto> (Parquet, df)) else f1) \<and>
   (write_error w CSV csv_path = Some e \<and> write_error w Parquet parquet_path = None \<and>
    files w csv_path = None \<and> csv_path \<noteq> parquet_path \<longrightarrow>
      files (save_outputs df csv_path parquet_path w) parquet_path = Some (Parquet, df) \<and>
      files (save_outputs df csv_path parquet_path w) csv_path = None \<and>
      (ERROR, ''Error saving CSV to '' @ csv_path @ '': '' @ e) \<in> set (log (save_outputs df csv_path parquet_path w)))"
  by (auto simp: save_outputs_def write_file_def logging_def Let_def split: option.splits)

theorem save_outputs_independent_witness:
  "files (save_outputs \<lparr>columns = [''a''], rows = [()]\<rparr> ''nonexistent_dir/file.csv'' ''file.parquet'' unwritable_csv) ''file.parquet'' =
      Some (Parquet, \<lparr>columns = [''a''], rows = [()]\<rparr>) \<and>
   files (save_outputs \<lparr>columns = [''a''], rows = [()]\<rparr> ''nonexistent_dir/file.csv'' ''file.parquet'' unwritable_csv) ''nonexistent_dir/file.csv'' = None \<and>
   (ERROR, ''Error saving CSV to nonexistent_dir/file.csv: Cannot save file into a non-existent directory'')
      \<in> set (log (save_outputs \<lparr>columns = [''a''], rows = [()]\<rparr> ''nonexistent_dir/file.csv'' ''file.parquet'' unwritable_csv))"
  using save_outputs_independent [of "\<lparr>columns = [''a''], rows = [()]\<rparr>" "''nonexistent_dir/file.csv''" "''file.parquet''"
      unwritable_csv "''Cannot save file into a non-existent directory''"]
  by (simp add: unwritable_csv_def)

section \<open>The first-year filter\<close>

lemma is_word_lower [simp]: "is_word (lower_char c) = is_word c"
  by (auto simp: is_word_def lower_char_def is_upper_def Let_def)

lemma lower_lower [simp]: "lower_char (lower_char c) = lower_char c"
  by (auto simp: lower_char_def is_upper_def Let_def)

lemma re_match_lit_ci:
  "re_match (lit_ci c) (p, s) =
     (case s of [] \<Rightarrow> [] | x # xs \<Rightarrow> if lower_char x = lower_char c then [(Some x, xs)] else [])"
  by (simp add: lit_ci_def)

lemma re_match_lits_ci:
  "re_match (lits_ci w) (p, s) =
     (if length w \<le> length s \<and> py_lower (take (length w) s) = py_lower w
      then [(prev_of p (take (length w) s), drop (length w) s)] else [])"
proof (induction w arbitrary: p s)
  case Nil
  then show ?case by (simp add: lits_ci_def prev_of_def)
next
  case (Cons c w)
  have unf: "lits_ci (c # w) = Seq (lit_ci c) (lits_ci w)"
    by (simp add: lits_ci_def)
  show ?case
  proof (cases s)
    case Nil
    then show ?thesis by (simp add: unf re_match_lit_ci)
  next
    case (Cons x xs)
    show ?thesis
    proof (cases "lower_char x = lower_char c")
      case False
      then show ?thesis using Cons by (simp add: unf re_match_lit_ci py_lower_def)
    next
      case True
      have "re_match (lits_ci (c # w)) (p, s) = re_match (lits_ci w) (Some x, xs)"
        using True Cons by (simp add: unf re_match_lit_ci)
      also have "\<dots> = (if length w \<le> length xs \<and> py_lower (take (length w) xs) = py_lower w
          then [(prev_of (Some x) (take (length w) xs), drop (length w) xs)] else [])"
        by (rule Cons.IH)
      finally show ?thesis
        using True Cons by (auto simp: py_lower_def prev_of_def)
    qed
  qed
qed

lemma re_search_from_iff:
  "re_search_from r p s \<longleftrightarrow> (\<exists>a b. s = a @ b \<and> re_match r (prev_of p a, b) \<noteq> [])"
proof (induction s arbitrary: p)
  case Nil
  then show ?case by (simp add: prev_of_def)
next
  case (Cons c cs)
  have "(\<exists>a b. c # cs = a @ b \<and> re_match r (prev_of p a, b) \<noteq> []) \<longleftrightarrow>
        re_match r (p, c # cs) \<noteq> [] \<or> (\<exists>a b. cs = a @ b \<and> re_match r (prev_of (Some c) a, b) \<noteq> [])"
    (is "?L \<longleftrightarrow> ?R")
  proof
    assume ?L
    then obtain a b where ab: "c # cs = a @ b" and m: "re_match r (prev_of p a, b) \<noteq> []"
      by blast
    show ?R
    proof (cases a)
      case Nil
      with ab m show ?thesis by (simp add: prev_of_def)
    next
      case (Cons x a')
      with ab have "cs = a' @ b" and "x = c" by simp_all
      moreover have "prev_of p a = prev_of (Some c) a'"
        using Cons \<open>x = c\<close> by (simp add: prev_of_def)
      ultimately show ?thesis using m by auto
    qed
  next
    assume ?R
    then show ?L
    proof
      assume "re_match r (p, c # cs) \<noteq> []"
      then have "c # cs = [] @ (c # cs) \<and> re_match r (prev_of p [], c # cs) \<noteq> []"
        by (simp add: prev_of_def)
      then show ?L by blast
    next
      assume "\<exists>a b. cs = a @ b \<and> re_match r (prev_of (Some c) a, b) \<noteq> []"
      then obtain a b where "cs = a @ b" and m: "re_match r (prev_of (Some c) a, b) \<noteq> []"
        by blast
      then have "c # cs = (c # a) @ b" by simp
      moreover have "prev_of p (c # a) = prev_of (Some c) a"
        by (simp add: prev_of_def)
      ultimately show ?L using m by metis
    qed
  qed
  with Cons.IH [of "Some c"] show ?case by simp
qed

lemma re_match_word:
  "re_match (Seq WordB (Seq (Alt r1 r2) WordB)) (p, s) \<noteq> [] \<longleftrightarrow>
     at_boundary p s \<and>
     (\<exists>k\<in>set (re_match r1 (p, s) @ re_match r2 (p, s)). at_boundary (fst k) (snd k))"
proof -
  have wb: "\<And>k. re_match WordB k \<noteq> [] \<longleftrightarrow> at_boundary (fst k) (snd k)"
    by (case_tac k) simp
  have "re_match (Seq (Alt r1 r2) WordB) (p, s) \<noteq> [] \<longleftrightarrow>
      (\<exists>k\<in>set (re_match r1 (p, s) @ re_match r2 (p, s)). at_boundary (fst k) (snd k))"
    unfolding wb [symmetric] by (simp del: re_match.simps(3)) blast
  then show ?thesis by simp
qed

lemma lits_boundary:
  "at_boundary p s \<and> (\<exists>k\<in>set (re_match (lits_ci w) (p, s)). at_boundary (fst k) (snd k)) \<longleftrightarrow>
     matches_word w p s"
  by (auto simp: re_match_lits_ci matches_word_def)

lemma first_year_match:
  "re_match first_year_re (p, s) \<noteq> [] \<longleftrightarrow>
     matches_word ''first year'' p s \<or> matches_word ''1st year'' p s"
proof -
  have "re_match first_year_re (p, s) \<noteq> [] \<longleftrightarrow>
      at_boundary p s \<and>
      (\<exists>k\<in>set (re_match (lits_ci ''first year'') (p, s) @ re_match (lits_ci ''1st year'') (p, s)).
          at_boundary (fst k) (snd k))"
    unfolding first_year_re_def by (rule re_match_word)
  also have "\<dots> \<longleftrightarrow> matches_word ''first year'' p s \<or> matches_word ''1st year'' p s"
    using lits_boundary [of p s "''first year''"] lits_boundary [of p s "''1st year''"]
    by auto
  finally show ?thesis .
qed

lemma at_boundary_start:
  "s \<noteq> [] \<Longrightarrow> is_word (hd s) \<Longrightarrow> at_boundary (prev_of None a) s \<longleftrightarrow> (a = [] \<or> \<not> is_word (last a))"
  by (cases s) (auto simp: at_boundary_def prev_of_def)

lemma at_boundary_end:
  "is_word c \<Longrightarrow> at_boundary (Some c) post \<longleftrightarrow> (post = [] \<or> \<not> is_word (hd post))"
  by (cases post) (auto simp: at_boundary_def)

lemma py_lower_word_ends:
  assumes "py_lower m = w" "w \<noteq> []" "is_word (hd w)" "is_word (last w)"
  shows "m \<noteq> [] \<and> is_word (hd m) \<and> is_word (last m)"
proof -
  from assms(1,2) have ne: "m \<noteq> []" by (auto simp: py_lower_def)
  have "hd w = lower_char (hd m)" "last w = lower_char (last m)"
    using assms(1) ne by (auto simp: py_lower_def hd_map last_map)
  with assms(3,4) ne show ?thesis by simp
qed

lemma matches_word_iff:
  assumes w: "py_lower w = w" "w \<noteq> []" "is_word (hd w)" "is_word (last w)"
  shows "(\<exists>a b. t = a @ b \<and> matches_word w (prev_of None a) b) \<longleftrightarrow> contains_whole_word w t"
proof
  assume "\<exists>a b. t = a @ b \<and> matches_word w (prev_of None a) b"
  then obtain a b where t: "t = a @ b" and mw: "matches_word w (prev_of None a) b"
    by blast
  define m where "m = take (length w) b"
  define post where "post = drop (length w) b"
  have b: "b = m @ post" by (simp add: m_def post_def)
  from mw have lm: "py_lower m = w"
    and b1: "at_boundary (prev_of None a) b"
    and b2: "at_boundary (prev_of (prev_of None a) m) post"
    using w(1) by (simp_all add: matches_word_def m_def post_def)
  from py_lower_word_ends [OF lm w(2,3,4)]
  have ne: "m \<noteq> []" and hw: "is_word (hd m)" and lw: "is_word (last m)" by blast+
  have "b \<noteq> []" "is_word (hd b)" using b ne hw by simp_all
  from at_boundary_start [OF this] b1 have a: "a = [] \<or> \<not> is_word (last a)" by simp
  have "prev_of (prev_of None a) m = Some (last m)" using ne by (simp add: prev_of_def)
  with b2 at_boundary_end [OF lw] have p: "post = [] \<or> \<not> is_word (hd post)" by simp
  have "py_lower t = py_lower a @ w @ py_lower post"
    using t b lm by (simp add: py_lower_def)
  moreover have "py_lower a = [] \<or> \<not> is_word (last (py_lower a))"
    using a by (auto simp: py_lower_def last_map)
  moreover have "py_lower post = [] \<or> \<not> is_word (hd (py_lower post))"
    using p by (auto simp: py_lower_def hd_map)
  ultimately show "contains_whole_word w t"
    unfolding contains_whole_word_def by blast
next
  assume "contains_whole_word w t"
  then obtain pre post' where e: "py_lower t = pre @ w @ post'"
    and pre: "pre = [] \<or> \<not> is_word (last pre)"
    and post': "post' = [] \<or> \<not> is_word (hd post')"
    unfolding contains_whole_word_def by blast
  from e obtain a r where t: "t = a @ r" and a: "pre = py_lower a" and r: "w @ post' = py_lower r"
    unfolding py_lower_def by (auto simp: map_eq_append_conv)
  from r obtain m post where rr: "r = m @ post" and m: "w = py_lower m" and p: "post' = py_lower post"
    unfolding py_lower_def by (auto simp: append_eq_map_conv)
  from py_lower_word_ends [OF m [symmetric] w(2,3,4)]
  have ne: "m \<noteq> []" and hw: "is_word (hd m)" and lw: "is_word (last m)" by blast+
  have len: "length m = length w" using m by (simp add: py_lower_def)
  have a': "a = [] \<or> \<not> is_word (last a)"
    using pre a by (auto simp: py_lower_def last_map)
  have p': "post = [] \<or> \<not> is_word (hd post)"
    using post' p by (auto simp: py_lower_def hd_map)
  have "r \<noteq> []" "is_word (hd r)" using rr ne hw by simp_all
  from at_boundary_start [OF this] a' have b1: "at_boundary (prev_of None a) r" by simp
  have "prev_of (prev_of None a) m = Some (last m)" using ne by (simp add: prev_of_def)
  with at_boundary_end [OF lw] p' have b2: "at_boundary (prev_of (prev_of None a) m) post" by simp
  have "matches_word w (prev_of None a) r"
    using b1 b2 rr len m w(1) by (simp add: matches_word_def)
  with t show "\<exists>a b. t = a @ b \<and> matches_word w (prev_of None a) b" by blast
qed

lemma re_search_first_year: "re_search first_year_re t \<longleftrightarrow> spec_first_year t"
proof -
  have w1: "py_lower ''first year'' = ''first year''" "is_word (hd ''first year'')" "is_word (last ''first year'')"
    by code_simp+
  have w2: "py_lower ''1st year'' = ''1st year''" "is_word (hd ''1st year'')" "is_word (last ''1st year'')"
    by code_simp+
  have "re_search first_year_re t \<longleftrightarrow>
      (\<exists>a b. t = a @ b \<and> matches_word ''first year'' (prev_of None a) b) \<or>
      (\<exists>a b. t = a @ b \<and> matches_word ''1st year'' (prev_of None a) b)"
    unfolding re_search_def re_search_from_iff first_year_match by blast
  also have "\<dots> \<longleftrightarrow> spec_first_year t"
    unfolding spec_first_year_def
    using matches_word_iff [OF w1(1) _ w1(2,3), of t] matches_word_iff [OF w2(1) _ w2(2,3), of t]
    by simp
  finally show ?thesis .
qed

section \<open>Grouping, pivots and the inner join\<close>

lemma set_group_keys: "set (group_keys obs) = key_of ` set obs"
  by (simp add: group_keys_def key_of_def [abs_def])

lemma map_of_groupby_sum:
  "map_of (groupby_sum obs) k = (if k \<in> key_of ` set obs then Some (sum_list (group_values obs k)) else None)"
  by (simp add: groupby_sum_def map_of_map_restrict restrict_map_def set_group_keys)

lemma map_of_groupby_mean:
  "map_of (groupby_mean obs) k = None \<longleftrightarrow> k \<notin> key_of ` set obs"
  by (simp add: groupby_mean_def map_of_map_restrict restrict_map_def set_group_keys)

lemma index_pivot_sum: "set (index_of (pivot (groupby_sum obs))) = year_range ` set obs"
  by (force simp: index_of_def pivot_def Let_def groupby_sum_def set_group_keys key_of_def comp_def)

lemma index_pivot_mean: "set (index_of (pivot (groupby_mean obs))) = year_range ` set obs"
  by (force simp: index_of_def pivot_def Let_def groupby_mean_def set_group_keys key_of_def comp_def)

lemma columns_pivot_sum: "set (w_columns (pivot (groupby_sum obs))) = o_sex ` set obs"
  by (force simp: pivot_def Let_def groupby_sum_def set_group_keys key_of_def comp_def)

lemma snd_process:
  "snd (process_first_year_stats df) =
     (if \<not> header_ok (map canon_col (columns df)) then Inl ColumnSelection
      else summarise (first_year_obs df))"
  by (simp add: process_first_year_stats_def Let_def first_year_obs_def)

lemma std_header_ok: "header_ok (map canon_col std_header)"
  by code_simp

lemma is_first_year_spec: "is_first_year r \<longleftrightarrow> spec_first_year (statistic_label r)"
  by (simp add: is_first_year_def re_search_first_year)

lemma not_first_year_FIRST: "\<not> re_search first_year_re ''FIRST''"
  by code_simp

lemma is_space_lower: "is_space (lower_char c) = is_space c"
  by (auto simp: is_space_def lower_char_def is_upper_def Let_def)

lemma count_not_perc: "is_count ob \<Longrightarrow> \<not> is_perc ob"
proof -
  assume c: "is_count ob"
  then have l: "py_lower (o_unit ob) = ''number''" by (simp add: is_count_def)
  have "list_all (\<lambda>x. \<not> is_space x) (py_lower (o_unit ob))"
    unfolding l by code_simp
  then have "list_all (\<lambda>x. \<not> is_space x) (o_unit ob)"
    by (simp add: py_lower_def list_all_iff is_space_lower)
  then have "py_strip (o_unit ob) = o_unit ob" by (rule py_strip_id)
  then show "\<not> is_perc ob" using l by (simp add: is_perc_def)
qed

lemma summarise_drop:
  "\<not> is_count ob \<Longrightarrow> \<not> is_perc ob \<Longrightarrow> summarise (xs @ ob # ys) = summarise (xs @ ys)"
proof -
  assume "\<not> is_count ob" "\<not> is_perc ob"
  then have "counts_wide (xs @ ob # ys) = counts_wide (xs @ ys)"
    and "perc_wide (xs @ ob # ys) = perc_wide (xs @ ys)"
    by (simp_all add: counts_wide_def perc_wide_def df_counts_def df_perc_def)
  then show ?thesis unfolding summarise_def by (simp only:)
qed

lemma stray_unit: "py_lower '' number '' \<noteq> ''number'' \<and> py_lower (py_strip '' number '') \<notin> set [''%'', ''percentage'']"
  by code_simp

lemma w_rows_pivot:
  "w_rows (pivot S) =
     map (\<lambda>yr. (yr, map (\<lambda>s. map_of S (yr, s)) (w_columns (pivot S)))) (index_of (pivot S))"
  by (simp add: pivot_def Let_def index_of_def comp_def)

lemma astype_int_missing:
  assumes "ob1 \<in> set C" "ob2 \<in> set C" "(year_range ob1, o_sex ob2) \<notin> key_of ` set C"
  shows "astype_int (add_suffix sfx (pivot (groupby_sum C))) = Inl IntCastingNaN"
proof -
  let ?S = "groupby_sum C"
  let ?cells = "map (\<lambda>s. map_of ?S (year_range ob1, s)) (w_columns (pivot ?S))"
  have "year_range ob1 \<in> set (index_of (pivot ?S))"
    using assms(1) by (simp add: index_pivot_sum)
  then have r: "(year_range ob1, ?cells) \<in> set (w_rows (pivot ?S))"
    by (subst w_rows_pivot) auto
  have "o_sex ob2 \<in> set (w_columns (pivot ?S))"
    using assms(2) by (simp add: columns_pivot_sum)
  moreover have "map_of ?S (year_range ob1, o_sex ob2) = None"
    using assms(3) by (simp add: map_of_groupby_sum)
  ultimately have "None \<in> set ?cells"
    by (metis (mono_tags, lifting) image_eqI list.set_map)
  then have "list_ex (\<lambda>c. c = None) ?cells"
    by (auto simp: list_ex_iff)
  with r have "list_ex (\<lambda>(yr, cs). list_ex (\<lambda>c. c = None) cs) (w_rows (pivot ?S))"
    unfolding list_ex_iff [of _ "w_rows (pivot ?S)"] by blast
  then show ?thesis
    by (simp add: astype_int_def add_suffix_def)
qed

lemma output_ranges_rows:
  "concat (map (\<lambda>row. case row of Text yr # _ \<Rightarrow> [yr] | _ \<Rightarrow> [])
     (concat (map (\<lambda>(yr, cs). case map_of R yr of None \<Rightarrow> []
                               | Some ps \<Rightarrow> [Text yr # map Integer cs @ map Float ps]) L))) =
   filter (\<lambda>yr. yr \<in> fst ` set R) (map fst L)"
proof (induction L)
  case Nil
  then show ?case by simp
next
  case (Cons x L)
  obtain yr cs where x: "x = (yr, cs)" by (cases x)
  show ?case
  proof (cases "map_of R yr")
    case None
    then have "yr \<notin> fst ` set R" by (simp add: map_of_eq_None_iff)
    with None Cons.IH x show ?thesis by simp
  next
    case (Some ps)
    then have "yr \<in> fst ` set R"
      using map_of_eq_None_iff [of R yr] by simp
    with Some Cons.IH x show ?thesis by simp
  qed
qed

lemma output_ranges_merge:
  "output_ranges (merge_inner l r) = filter (\<lambda>yr. yr \<in> set (index_of r)) (index_of l)"
  by (simp add: output_ranges_def merge_inner_def index_of_def output_ranges_rows)

lemma index_astype_int: "astype_int w = Inr w' \<Longrightarrow> index_of w' = index_of w"
  by (auto simp: astype_int_def index_of_def comp_def split: if_splits prod.splits)

lemma index_fillna_round: "index_of (fillna_round w) = index_of w"
  by (auto simp: fillna_round_def index_of_def comp_def split: prod.splits)

lemma index_add_suffix: "index_of (add_suffix sfx w) = index_of w"
  by (simp add: add_suffix_def index_of_def)

lemma summarise_ranges:
  assumes "summarise obs = Inr out"
  shows "output_ranges out =
     filter (\<lambda>yr. yr \<in> set (index_of (perc_wide obs))) (index_of (counts_wide obs))"
proof -
  from assms obtain cw where cw: "astype_int (counts_wide obs) = Inr cw"
    and out: "out = merge_inner cw (fillna_round (perc_wide obs))"
    by (auto simp: summarise_def split: sum.splits)
  show ?thesis
    by (simp add: out output_ranges_merge index_fillna_round index_astype_int [OF cw])
qed

lemma index_perc_wide: "set (index_of (perc_wide obs)) = year_range ` set (df_perc obs)"
  by (simp add: perc_wide_def index_add_suffix index_pivot_mean)

lemma index_counts_wide: "set (index_of (counts_wide obs)) = year_range ` set (df_counts obs)"
  by (simp add: counts_wide_def index_add_suffix index_pivot_sum)

lemma ragged_counts_obs: "first_year_obs ragged_counts_example =
  [\<lparr>year_range = ''2000-2004'', o_sex = ''Male'', o_unit = ''number'', o_value = 10\<rparr>,
   \<lparr>year_range = ''2005-2009'', o_sex = ''Female'', o_unit = ''number'', o_value = 20\<rparr>,
   \<lparr>year_range = ''2000-2004'', o_sex = ''Male'', o_unit = ''%'', o_value = 50\<rparr>]"
  by code_simp

lemma ragged_counts_summary: "summarise
  [\<lparr>year_range = ''2000-2004'', o_sex = ''Male'', o_unit = ''number'', o_value = 10\<rparr>,
   \<lparr>year_range = ''2005-2009'', o_sex = ''Female'', o_unit = ''number'', o_value = 20\<rparr>,
   \<lparr>year_range = ''2000-2004'', o_sex = ''Male'', o_unit = ''%'', o_value = 50\<rparr>] = Inl IntCastingNaN"
  by code_simp

lemma ragged_counts_index:
  "index_of (counts_wide
  [\<lparr>year_range = ''2000-2004'', o_sex = ''Male'', o_unit = ''number'', o_value = 10\<rparr>,
   \<lparr>year_range = ''2005-2009'', o_sex = ''Female'', o_unit = ''number'', o_value = 20\<rparr>,
   \<lparr>year_range = ''2000-2004'', o_sex = ''Male'', o_unit = ''%'', o_value = 50\<rparr>]) = [''2000-2004'', ''2005-2009'']"
  "index_of (perc_wide
  [\<lparr>year_range = ''2000-2004'', o_sex = ''Male'', o_unit = ''number'', o_value = 10\<rparr>,
   \<lparr>year_range = ''2005-2009'', o_sex = ''Female'', o_unit = ''number'', o_value = 20\<rparr>,
   \<lparr>year_range = ''2000-2004'', o_sex = ''Male'', o_unit = ''%'', o_value = 50\<rparr>]) = [''2000-2004'']"
  by code_simp+

lemma ragged_counts_header: "columns ragged_counts_example = std_header"
  by (simp add: ragged_counts_example_def)

lemma counts_only_obs: "first_year_obs counts_only_example =
  [\<lparr>year_range = ''2000-2004'', o_sex = ''Male'', o_unit = ''number'', o_value = 10\<rparr>,
   \<lparr>year_range = ''2000-2004'', o_sex = ''Male'', o_unit = ''%'', o_value = 50\<rparr>,
   \<lparr>year_range = ''2005-2009'', o_sex = ''Male'', o_unit = ''number'', o_value = 20\<rparr>]"
  by code_simp

lemma counts_only_result: "summarise
  [\<lparr>year_range = ''2000-2004'', o_sex = ''Male'', o_unit = ''number'', o_value = 10\<rparr>,
   \<lparr>year_range = ''2000-2004'', o_sex = ''Male'', o_unit = ''%'', o_value = 50\<rparr>,
   \<lparr>year_range = ''2005-2009'', o_sex = ''Male'', o_unit = ''number'', o_value = 20\<rparr>] = Inr counts_only_summary"
  by code_simp

lemma counts_only_units: "\<forall>ob\<in>set
  [\<lparr>year_range = ''2000-2004'', o_sex = ''Male'', o_unit = ''number'', o_value = 10\<rparr>,
   \<lparr>year_range = ''2000-2004'', o_sex = ''Male'', o_unit = ''%'', o_value = 50\<rparr>,
   \<lparr>year_range = ''2005-2009'', o_sex = ''Male'', o_unit = ''number'', o_value = 20\<rparr>].
   year_range ob = ''2005-2009'' \<longrightarrow> py_lower (o_unit ob) = ''number''"
  by code_simp

lemma ragged_percent_obs: "first_year_obs ragged_percent_example =
  [\<lparr>year_range = ''2000-2004'', o_sex = ''Male'', o_unit = ''number'', o_value = 10\<rparr>,
   \<lparr>year_range = ''2005-2009'', o_sex = ''Male'', o_unit = ''number'', o_value = 20\<rparr>,
   \<lparr>year_range = ''2000-2004'', o_sex = ''Male'', o_unit = ''%'', o_value = 50\<rparr>,
   \<lparr>year_range = ''2005-2009'', o_sex = ''Female'', o_unit = ''%'', o_value = 60\<rparr>]"
  by code_simp

lemma ragged_percent_result: "summarise
  [\<lparr>year_range = ''2000-2004'', o_sex = ''Male'', o_unit = ''number'', o_value = 10\<rparr>,
   \<lparr>year_range = ''2005-2009'', o_sex = ''Male'', o_unit = ''number'', o_value = 20\<rparr>,
   \<lparr>year_range = ''2000-2004'', o_sex = ''Male'', o_unit = ''%'', o_value = 50\<rparr>,
   \<lparr>year_range = ''2005-2009'', o_sex = ''Female'', o_unit = ''%'', o_value = 60\<rparr>] =
   Inr \<lparr>columns = [''year_range'', ''Male_count'', ''Female_percent'', ''Male_percent''],
        rows = [[Text ''2000-2004'', Integer 10, Float 0, Float 50],
                [Text ''2005-2009'', Integer 20, Float 60, Float 0]]\<rparr>"
  by code_simp

lemma ragged_percent_process:
  "snd (process_first_year_stats ragged_percent_example) =
   Inr \<lparr>columns = [''year_range'', ''Male_count'', ''Female_percent'', ''Male_percent''],
        rows = [[Text ''2000-2004'', Integer 10, Float 0, Float 50],
                [Text ''2005-2009'', Integer 20, Float 60, Float 0]]\<rparr>"
proof -
  have h: "columns ragged_percent_example = std_header"
    by (simp add: ragged_percent_example_def)
  show ?thesis
    by (simp add: snd_process h std_header_ok ragged_percent_obs ragged_percent_result)
qed

text \<open>
  Claim C9. When, within the counts subset, some sex that occurs has no row for some
  period that occurs, \<^verbatim>\<open>process_first_year_stats\<close> returns no table but a transformation
  error, for the whole input; with a well-formed header the error is the failed conversion
  of a missing cell to an integer. Missing percentage cells do no harm: they become 0.0, as
  in the example, where each period lacks the percentage of one sex.
\<close>

theorem missing_count_cell_error:
  assumes "ob1 \<in> set (df_counts (first_year_obs df))"
    and "ob2 \<in> set (df_counts (first_year_obs df))"
    and "\<forall>ob\<in>set (df_counts (first_year_obs df)).
           \<not> (year_range ob = year_range ob1 \<and> o_sex ob = o_sex ob2)"
  shows "(\<exists>e. snd (process_first_year_stats df) = Inl e) \<and>
         (header_ok (map canon_col (columns df)) \<longrightarrow>
            snd (process_first_year_stats df) = Inl IntCastingNaN) \<and>
         snd (process_first_year_stats ragged_percent_example) =
           Inr \<lparr>columns = [''year_range'', ''Male_count'', ''Female_percent'', ''Male_percent''],
                rows = [[Text ''2000-2004'', Integer 10, Float 0, Float 50],
                        [Text ''2005-2009'', Integer 20, Float 60, Float 0]]\<rparr>"
proof -
  let ?C = "df_counts (first_year_obs df)"
  from assms(3) have "(year_range ob1, o_sex ob2) \<notin> key_of ` set ?C"
    by (auto simp: key_of_def)
  from astype_int_missing [OF assms(1,2) this]
  have "astype_int (counts_wide (first_year_obs df)) = Inl IntCastingNaN"
    by (simp add: counts_wide_def)
  then have "summarise (first_year_obs df) = Inl IntCastingNaN"
    by (simp add: summarise_def)
  then show ?thesis
    using ragged_percent_process by (simp add: snd_process)
qed

text \<open>In the example Male has counts only in 2000-2004 and Female only in 2005-2009.\<close>

theorem missing_count_cell_error_witness:
  "snd (process_first_year_stats ragged_counts_example) = Inl IntCastingNaN"
proof -
  let ?m = "\<lparr>year_range = ''2000-2004'', o_sex = ''Male'', o_unit = ''number'', o_value = 10\<rparr>"
  let ?f = "\<lparr>year_range = ''2005-2009'', o_sex = ''Female'', o_unit = ''number'', o_value = 20\<rparr>"
  have c: "df_counts (first_year_obs ragged_counts_example) = [?m, ?f]"
    unfolding ragged_counts_obs by code_simp
  have 1: "?m \<in> set (df_counts (first_year_obs ragged_counts_example))"
    and 2: "?f \<in> set (df_counts (first_year_obs ragged_counts_example))"
    unfolding c by simp_all
  have 3: "\<forall>ob\<in>set (df_counts (first_year_obs ragged_counts_example)).
      \<not> (year_range ob = year_range ?m \<and> o_sex ob = o_sex ?f)"
    unfolding c by simp
  from missing_count_cell_error [OF 1 2 3] std_header_ok
  show ?thesis by (simp add: ragged_counts_header)
qed

lemma mixed_units_obs: "first_year_obs mixed_units_example =
  [\<lparr>year_range = ''2010-2014'', o_sex = ''Male'', o_unit = ''Number'', o_value = 100\<rparr>,
   \<lparr>year_range = ''2010-2014'', o_sex = ''Male'', o_unit = ''%'', o_value = 50\<rparr>]"
  by code_simp

lemma mixed_units_result: "summarise
  [\<lparr>year_range = ''2010-2014'', o_sex = ''Male'', o_unit = ''Number'', o_value = 100\<rparr>,
   \<lparr>year_range = ''2010-2014'', o_sex = ''Male'', o_unit = ''%'', o_value = 50\<rparr>] = Inr mixed_units_summary"
  by code_simp

lemma mixed_units_process:
  "snd (process_first_year_stats mixed_units_example) = Inr mixed_units_summary"
proof -
  have h: "columns mixed_units_example = std_header"
    by (simp add: mixed_units_example_def)
  show ?thesis
    by (simp add: snd_process h std_header_ok mixed_units_obs mixed_units_result)
qed

section \<open>The summary in closed form\<close>











lemma concat_map_if:
  "concat (map (\<lambda>x. if Q x then [f x] else []) xs) = map f (filter Q xs)"
  by (induction xs) simp_all








section \<open>The Aggregator: the claims\<close>




lemma unit_variants_obs: "first_year_obs unit_variants_example =
  [\<lparr>year_range = ''2010-2014'', o_sex = ''Male'', o_unit = ''NUMBER'', o_value = 100\<rparr>,
   \<lparr>year_range = ''2010-2014'', o_sex = ''Male'', o_unit = '' number '', o_value = 7\<rparr>,
   \<lparr>year_range = ''2010-2014'', o_sex = ''Male'', o_unit = '' % '', o_value = 50\<rparr>,
   \<lparr>year_range = ''2010-2014'', o_sex = ''Male'', o_unit = CHR 0xA0 # ''Percentage '', o_value = 60\<rparr>]"
  by code_simp

lemma unit_variants_result: "summarise
  [\<lparr>year_range = ''2010-2014'', o_sex = ''Male'', o_unit = ''NUMBER'', o_value = 100\<rparr>,
   \<lparr>year_range = ''2010-2014'', o_sex = ''Male'', o_unit = '' number '', o_value = 7\<rparr>,
   \<lparr>year_range = ''2010-2014'', o_sex = ''Male'', o_unit = '' % '', o_value = 50\<rparr>,
   \<lparr>year_range = ''2010-2014'', o_sex = ''Male'', o_unit = CHR 0xA0 # ''Percentage '', o_value = 60\<rparr>] =
   Inr unit_variants_summary"
  by code_simp

lemma unit_variants_process:
  "snd (process_first_year_stats unit_variants_example) = Inr unit_variants_summary"
proof -
  have h: "columns unit_variants_example = std_header"
    by (simp add: unit_variants_example_def)
  show ?thesis
    by (simp add: snd_process h std_header_ok unit_variants_obs unit_variants_result)
qed

lemma unit_variants_tests:
  "py_lower ''NUMBER'' = ''number'' \<and> py_lower '' number '' \<noteq> ''number'' \<and>
   py_lower (py_strip '' number '') = ''number'' \<and>
   py_lower (py_strip '' % '') = ''%'' \<and> py_lower (py_strip (CHR 0xA0 # ''Percentage '')) = ''percentage''"
  by code_simp




text \<open>
  Claim C2. A period that is in the counts pivot and in the percentages pivot should
  appear in the output. In the example the period 2000-2004 is in both pivots, but the
  counts pivot has a missing cell for another period, the conversion to integers raises,
  and the call returns an error instead of a table with that period.
\<close>

theorem inner_join_lost_on_cast_error:
  "''2000-2004'' \<in> set (index_of (counts_wide (first_year_obs ragged_counts_example))) \<and>
   ''2000-2004'' \<in> set (index_of (perc_wide (first_year_obs ragged_counts_example))) \<and>
   snd (process_first_year_stats ragged_counts_example) = Inl IntCastingNaN \<and>
   \<not> appears_in_output ''2000-2004'' (snd (process_first_year_stats ragged_counts_example))"
proof -
  have "snd (process_first_year_stats ragged_counts_example) = Inl IntCastingNaN"
    by (simp add: snd_process ragged_counts_header std_header_ok ragged_counts_obs ragged_counts_summary)
  then show ?thesis
    by (simp add: appears_in_output_def ragged_counts_obs ragged_counts_index)
qed

text \<open>
  Where the call returns a table, the periods in it are those of both pivots, and a period
  whose filtered rows all have the unit \<^verbatim>\<open>number\<close> is not among them.
\<close>

lemma inner_join_when_returned:
  assumes "snd (process_first_year_stats df) = Inr out"
  shows "(yr \<in> set (output_ranges out) \<longleftrightarrow>
            yr \<in> set (index_of (counts_wide (first_year_obs df))) \<and>
            yr \<in> set (index_of (perc_wide (first_year_obs df)))) \<and>
         ((\<forall>ob\<in>set (first_year_obs df). year_range ob = yr \<longrightarrow> py_lower (o_unit ob) = ''number'') \<longrightarrow>
            yr \<notin> set (output_ranges out))"
proof -
  let ?obs = "first_year_obs df"
  from assms have s: "summarise ?obs = Inr out"
    by (simp add: snd_process split: if_splits)
  have iff: "yr \<in> set (output_ranges out) \<longleftrightarrow>
      yr \<in> set (index_of (counts_wide ?obs)) \<and> yr \<in> set (index_of (perc_wide ?obs))"
    by (auto simp: summarise_ranges [OF s])
  have "yr \<notin> set (index_of (perc_wide ?obs))"
    if a: "\<forall>ob\<in>set ?obs. year_range ob = yr \<longrightarrow> py_lower (o_unit ob) = ''number''"
  proof
    assume "yr \<in> set (index_of (perc_wide ?obs))"
    then obtain ob where ob: "ob \<in> set ?obs" "is_perc ob" "year_range ob = yr"
      by (auto simp: index_perc_wide df_perc_def)
    with a have "is_count ob" by (simp add: is_count_def)
    with ob(2) count_not_perc show False by blast
  qed
  with iff show ?thesis by blast
qed

lemma counts_only_absent:
  "snd (process_first_year_stats counts_only_example) = Inr counts_only_summary \<and>
   ''2005-2009'' \<in> set (index_of (counts_wide (first_year_obs counts_only_example))) \<and>
   ''2005-2009'' \<notin> set (output_ranges counts_only_summary)"
proof -
  have h: "columns counts_only_example = std_header"
    by (simp add: counts_only_example_def)
  have r: "snd (process_first_year_stats counts_only_example) = Inr counts_only_summary"
    by (simp add: snd_process h std_header_ok counts_only_obs counts_only_result)
  have u: "\<forall>ob\<in>set (first_year_obs counts_only_example).
       year_range ob = ''2005-2009'' \<longrightarrow> py_lower (o_unit ob) = ''number''"
    unfolding counts_only_obs by (rule counts_only_units)
  have c: "''2005-2009'' \<in> set (index_of (counts_wide (first_year_obs counts_only_example)))"
    unfolding counts_only_obs by code_simp
  from inner_join_when_returned [OF r, of "''2005-2009''"] u
  have "''2005-2009'' \<notin> set (output_ranges counts_only_summary)" by blast
  with r c show ?thesis by blast
qed

lemma first_year_labels:
  "\<not> re_search first_year_re (''first year'' @ [CHR 0xB2]) \<and>
   \<not> re_search first_year_re (''first year'' @ [CHR 0xE9]) \<and>
   \<not> re_search first_year_re (CHR 0xC9 # ''first year'') \<and>
   re_search first_year_re (CHR 0xA0 # ''1ST Year'' @ [CHR 0x85])"
  by code_simp

text \<open>
  Claim C3. \<^verbatim>\<open>process_first_year_stats\<close> keeps exactly the rows whose statistic label
  contains \<^verbatim>\<open>first year\<close> or \<^verbatim>\<open>1st year\<close> as a whole-word phrase, whatever the case of
  the letters: the regular expression search is that test, the filtered table consists of
  the rows that pass it, the result is the same when all other rows are removed from the
  input beforehand, and a row whose label is \<^verbatim>\<open>FIRST\<close> does not pass. A superscript two, an
  e with acute accent or a capital E with acute accent next to the phrase is a word character and breaks the
  match; a no-break space or a next-line character does not.
\<close>

theorem first_year_filter:
  "(is_first_year r \<longleftrightarrow> spec_first_year (statistic_label r)) \<and>
   first_year_obs df = map prepare (filter (\<lambda>r. spec_first_year (statistic_label r)) (rows df)) \<and>
   snd (process_first_year_stats (df\<lparr>rows := filter (\<lambda>r. spec_first_year (statistic_label r)) (rows df)\<rparr>)) =
     snd (process_first_year_stats df) \<and>
   \<not> is_first_year (r\<lparr>statistic_label := ''FIRST''\<rparr>) \<and>
   \<not> is_first_year (r\<lparr>statistic_label := ''first year'' @ [CHR 0xB2]\<rparr>) \<and>
   \<not> is_first_year (r\<lparr>statistic_label := ''first year'' @ [CHR 0xE9]\<rparr>) \<and>
   \<not> is_first_year (r\<lparr>statistic_label := CHR 0xC9 # ''first year''\<rparr>) \<and>
   is_first_year (r\<lparr>statistic_label := CHR 0xA0 # ''1ST Year'' @ [CHR 0x85]\<rparr>)"
proof -
  have e: "is_first_year = (\<lambda>r. spec_first_year (statistic_label r))"
    by (rule ext) (rule is_first_year_spec)
  have 1: "first_year_obs df = map prepare (filter (\<lambda>r. spec_first_year (statistic_label r)) (rows df))"
    by (simp add: first_year_obs_def e)
  have "first_year_obs (df\<lparr>rows := filter (\<lambda>r. spec_first_year (statistic_label r)) (rows df)\<rparr>) =
      first_year_obs df"
    by (simp add: first_year_obs_def e)
  then have 2: "snd (process_first_year_stats (df\<lparr>rows := filter (\<lambda>r. spec_first_year (statistic_label r)) (rows df)\<rparr>)) =
     snd (process_first_year_stats df)"
    by (simp add: snd_process)
  have 3: "\<not> is_first_year (r\<lparr>statistic_label := ''FIRST''\<rparr>)"
    using not_first_year_FIRST by (simp add: is_first_year_def)
  have 4: "\<not> is_first_year (r\<lparr>statistic_label := ''first year'' @ [CHR 0xB2]\<rparr>) \<and>
   \<not> is_first_year (r\<lparr>statistic_label := ''first year'' @ [CHR 0xE9]\<rparr>) \<and>
   \<not> is_first_year (r\<lparr>statistic_label := CHR 0xC9 # ''first year''\<rparr>) \<and>
   is_first_year (r\<lparr>statistic_label := CHR 0xA0 # ''1ST Year'' @ [CHR 0x85]\<rparr>)"
    using first_year_labels by (simp add: is_first_year_def)
  from is_first_year_spec 1 2 3 4 show ?thesis by blast
qed

text \<open>
  The phrase test holds of the label \<^verbatim>\<open>1st Year info\<close> and fails for \<^verbatim>\<open>FIRST\<close> and for
  the phrase followed by a superscript two.
\<close>

theorem first_year_filter_witness:
  "spec_first_year ''1st Year info'' \<and> \<not> spec_first_year ''FIRST'' \<and>
   \<not> spec_first_year (''first year'' @ [CHR 0xB2])"
proof -
  let ?r = "\<lparr>statistic_label = ''1st Year info'', year = 2002, sex = ''Female'', unit = ''%'',
     val = Some (179 / 2)\<rparr>"
  have "is_first_year ?r" by code_simp
  with first_year_filter [of ?r mixed_units_example]
  have 1: "spec_first_year ''1st Year info''" by simp
  from first_year_filter [of ?r mixed_units_example]
  have "\<not> is_first_year (?r\<lparr>statistic_label := ''FIRST''\<rparr>)" by blast
  with first_year_filter [of "?r\<lparr>statistic_label := ''FIRST''\<rparr>" mixed_units_example]
  have 2: "\<not> spec_first_year ''FIRST''" by simp
  from first_year_filter [of ?r mixed_units_example]
  have "\<not> is_first_year (?r\<lparr>statistic_label := ''first year'' @ [CHR 0xB2]\<rparr>)" by blast
  with first_year_filter [of "?r\<lparr>statistic_label := ''first year'' @ [CHR 0xB2]\<rparr>" mixed_units_example]
  have "\<not> spec_first_year (''first year'' @ [CHR 0xB2])" by simp
  with 1 2 show ?thesis by blast
qed

text \<open>
  Claim C6. A filtered row is in the counts subset exactly when its lowercased unit, not
  trimmed, is \<^verbatim>\<open>number\<close>, and in the percentage subset exactly when its trimmed and
  lowercased unit is \<^verbatim>\<open>%\<close> or \<^verbatim>\<open>percentage\<close>. A row that passes neither test is dropped
  entirely: the result is the same without it. The unit \<^verbatim>\<open>" number "\<close> passes neither,
  though trimmed it would be \<^verbatim>\<open>number\<close>. In the example the value 100 with the unit
  \<^verbatim>\<open>NUMBER\<close> is counted, the value 7 with the unit \<^verbatim>\<open>" number "\<close> is not, and the values
  50 and 60, whose units \<^verbatim>\<open>" % "\<close> and \<^verbatim>\<open>Percentage\<close> are surrounded by blanks and a
  no-break space, are averaged to 55.0.
\<close>

theorem unit_split:
  "(ob \<in> set (df_counts (first_year_obs df)) \<longleftrightarrow>
      ob \<in> set (first_year_obs df) \<and> py_lower (o_unit ob) = ''number'') \<and>
   (ob \<in> set (df_perc (first_year_obs df)) \<longleftrightarrow>
      ob \<in> set (first_year_obs df) \<and>
      (py_lower (py_strip (o_unit ob)) = ''%'' \<or> py_lower (py_strip (o_unit ob)) = ''percentage'')) \<and>
   (py_lower (unit r) \<noteq> ''number'' \<and> py_lower (py_strip (unit r)) \<noteq> ''%'' \<and>
    py_lower (py_strip (unit r)) \<noteq> ''percentage'' \<longrightarrow>
      snd (process_first_year_stats (df\<lparr>rows := xs @ r # ys\<rparr>)) =
      snd (process_first_year_stats (df\<lparr>rows := xs @ ys\<rparr>))) \<and>
   py_lower '' number '' \<noteq> ''number'' \<and> py_lower (py_strip '' number '') \<noteq> ''%'' \<and>
   py_lower (py_strip '' number '') \<noteq> ''percentage'' \<and>
   py_lower ''NUMBER'' = ''number'' \<and> py_lower (py_strip '' number '') = ''number'' \<and>
   py_lower (py_strip '' % '') = ''%'' \<and>
   py_lower (py_strip (CHR 0xA0 # ''Percentage '')) = ''percentage'' \<and>
   snd (process_first_year_stats unit_variants_example) = Inr unit_variants_summary"
proof -
  have drop: "py_lower (unit r) \<noteq> ''number'' \<and> py_lower (py_strip (unit r)) \<noteq> ''%'' \<and>
      py_lower (py_strip (unit r)) \<noteq> ''percentage'' \<longrightarrow>
      snd (process_first_year_stats (df\<lparr>rows := xs @ r # ys\<rparr>)) =
      snd (process_first_year_stats (df\<lparr>rows := xs @ ys\<rparr>))"
  proof
    assume a: "py_lower (unit r) \<noteq> ''number'' \<and> py_lower (py_strip (unit r)) \<noteq> ''%'' \<and>
      py_lower (py_strip (unit r)) \<noteq> ''percentage''"
    then have n: "\<not> is_count (prepare r)" "\<not> is_perc (prepare r)"
      by (simp_all add: is_count_def is_perc_def prepare_def)
    have "summarise (first_year_obs (df\<lparr>rows := xs @ r # ys\<rparr>)) =
        summarise (first_year_obs (df\<lparr>rows := xs @ ys\<rparr>))"
      using summarise_drop [OF n] by (simp add: first_year_obs_def)
    then show "snd (process_first_year_stats (df\<lparr>rows := xs @ r # ys\<rparr>)) =
      snd (process_first_year_stats (df\<lparr>rows := xs @ ys\<rparr>))"
      by (simp add: snd_process)
  qed
  have sets: "(ob \<in> set (df_counts (first_year_obs df)) \<longleftrightarrow>
      ob \<in> set (first_year_obs df) \<and> py_lower (o_unit ob) = ''number'') \<and>
   (ob \<in> set (df_perc (first_year_obs df)) \<longleftrightarrow>
      ob \<in> set (first_year_obs df) \<and>
      (py_lower (py_strip (o_unit ob)) = ''%'' \<or> py_lower (py_strip (o_unit ob)) = ''percentage''))"
    by (simp add: df_counts_def df_perc_def is_count_def is_perc_def)
  from sets drop stray_unit unit_variants_tests unit_variants_process show ?thesis
    by simp
qed

text \<open>
  A row with the unit \<^verbatim>\<open>" number "\<close> and the value 7, added to the table of the mixed
  units test, leaves the summary as it was.
\<close>

theorem unit_split_witness:
  "py_lower '' number '' \<noteq> ''number'' \<and> py_lower (py_strip '' number '') \<noteq> ''%'' \<and>
   py_lower (py_strip '' number '') \<noteq> ''percentage'' \<and>
   snd (process_first_year_stats stray_unit_example) = Inr mixed_units_summary"
proof -
  let ?a = "\<lparr>statistic_label = ''First Year Data'', year = 2010, sex = ''Male'', unit = ''Number'', val = Some 100\<rparr>"
  let ?s = "\<lparr>statistic_label = ''First Year Data'', year = 2010, sex = ''Male'', unit = '' number '', val = Some 7\<rparr>"
  let ?b = "\<lparr>statistic_label = ''First Year Data'', year = 2010, sex = ''Male'', unit = ''%'', val = Some 50\<rparr>"
  note u = unit_split [of undefined mixed_units_example ?s "[?a]" "[?b]"]
  from u have n: "py_lower '' number '' \<noteq> ''number'' \<and> py_lower (py_strip '' number '') \<noteq> ''%'' \<and>
      py_lower (py_strip '' number '') \<noteq> ''percentage''"
    by blast
  with u have "snd (process_first_year_stats (mixed_units_example\<lparr>rows := [?a] @ ?s # [?b]\<rparr>)) =
      snd (process_first_year_stats (mixed_units_example\<lparr>rows := [?a] @ [?b]\<rparr>))"
    by simp
  moreover have "mixed_units_example\<lparr>rows := [?a] @ ?s # [?b]\<rparr> = stray_unit_example"
    by (simp add: mixed_units_example_def stray_unit_example_def)
  moreover have "mixed_units_example\<lparr>rows := [?a] @ [?b]\<rparr> = mixed_units_example"
    by (simp add: mixed_units_example_def)
  ultimately have "snd (process_first_year_stats stray_unit_example) = Inr mixed_units_summary"
    using mixed_units_process by simp
  with n show ?thesis by blast
qed

lemma latin1_header_canon:
  "map canon_col ['' Statistic Label'', ''YEAR'', ''Sex'' @ [CHR 0xA0], ''Unit'', ''VALUE'', CHR 0xC9 # ''COLE''] =
     [''statistic label'', ''year'', ''sex'', ''unit'', ''value'', CHR 0xE9 # ''cole'']"
  by code_simp

lemma latin1_header_ok:
  "header_ok [''statistic label'', ''year'', ''sex'', ''unit'', ''value'', CHR 0xE9 # ''cole'']"
  by code_simp

text \<open>
  Claim C10. \<^verbatim>\<open>process_first_year_stats\<close> changes the table passed to it: after the call
  its column names are trimmed and lowercased, whether the call succeeds or fails. For the
  header \<^verbatim>\<open>[" Year ", "SEX"]\<close> the call fails on the missing columns and leaves the
  caller with the header \<^verbatim>\<open>["year", "sex"]\<close>. For a header with capitals, blanks, a
  no-break space and a capital E with acute accent the call fails in the conversion of the counts, long after
  the first step, and leaves the caller with the canonical names.
\<close>

theorem process_canonicalizes_input:
  "fst (process_first_year_stats df) = df\<lparr>columns := map (\<lambda>col. py_lower (py_strip col)) (columns df)\<rparr> \<and>
   snd (process_first_year_stats bad_header_example) = Inl ColumnSelection \<and>
   columns (fst (process_first_year_stats bad_header_example)) = [''year'', ''sex''] \<and>
   columns bad_header_example = ['' Year '', ''SEX''] \<and>
   snd (process_first_year_stats latin1_header_example) = Inl IntCastingNaN \<and>
   columns (fst (process_first_year_stats latin1_header_example)) =
     [''statistic label'', ''year'', ''sex'', ''unit'', ''value'', CHR 0xE9 # ''cole''] \<and>
   columns latin1_header_example =
     ['' Statistic Label'', ''YEAR'', ''Sex'' @ [CHR 0xA0], ''Unit'', ''VALUE'', CHR 0xC9 # ''COLE'']"
proof -
  have c: "map canon_col ['' Year '', ''SEX''] = [''year'', ''sex'']"
    by code_simp
  have h: "\<not> header_ok [''year'', ''sex'']"
    by code_simp
  have g: "fst (process_first_year_stats df) = df\<lparr>columns := map (\<lambda>col. py_lower (py_strip col)) (columns df)\<rparr>"
    by (simp add: process_first_year_stats_def Let_def canon_col_def [abs_def])
  have b: "snd (process_first_year_stats bad_header_example) = Inl ColumnSelection \<and>
      columns (fst (process_first_year_stats bad_header_example)) = [''year'', ''sex''] \<and>
      columns bad_header_example = ['' Year '', ''SEX'']"
    using c h by (simp add: process_first_year_stats_def Let_def bad_header_example_def)
  have l3: "columns latin1_header_example =
     ['' Statistic Label'', ''YEAR'', ''Sex'' @ [CHR 0xA0], ''Unit'', ''VALUE'', CHR 0xC9 # ''COLE'']"
    by (simp add: latin1_header_example_def)
  have cc: "map canon_col (columns latin1_header_example) =
     [''statistic label'', ''year'', ''sex'', ''unit'', ''value'', CHR 0xE9 # ''cole'']"
    unfolding l3 by (rule latin1_header_canon)
  have hk: "header_ok (map canon_col (columns latin1_header_example))"
    unfolding cc by (rule latin1_header_ok)
  have o: "first_year_obs latin1_header_example = first_year_obs ragged_counts_example"
    by (simp add: first_year_obs_def latin1_header_example_def)
  have l: "snd (process_first_year_stats latin1_header_example) = Inl IntCastingNaN"
    unfolding snd_process o using hk by (simp add: ragged_counts_obs ragged_counts_summary)
  have "columns (fst (process_first_year_stats latin1_header_example)) =
      map canon_col (columns latin1_header_example)"
    by (simp add: process_first_year_stats_def Let_def)
  then have l2: "columns (fst (process_first_year_stats latin1_header_example)) =
     [''statistic label'', ''year'', ''sex'', ''unit'', ''value'', CHR 0xE9 # ''cole'']"
    unfolding cc .
  from g b l l2 l3 show ?thesis by blast
qed

text \<open>
  Two headers without \<^verbatim>\<open>sex\<close>; in the second one a no-break space precedes
  \<^verbatim>\<open>year\<close>, which is present all the same. A third header, in capitals and with blanks,
  lacks \<^verbatim>\<open>sex\<close> and \<^verbatim>\<open>unit\<close>.
\<close>

theorem load_dataset_missing_witness:
  "(\<exists>m\<in>set mandatory_cols. \<not> present m schema_example) \<and>
   load_dataset (Inr \<lparr>columns = schema_example, rows = []::raw_record list\<rparr>) =
     Inl ''Schema error: missing mandatory columns ['sex']'' \<and>
   (\<exists>m\<in>set mandatory_cols. \<not> present m nbsp_schema_example) \<and>
   load_dataset (Inr \<lparr>columns = nbsp_schema_example, rows = []::raw_record list\<rparr>) =
     Inl ''Schema error: missing mandatory columns ['sex']'' \<and>
   (\<exists>m\<in>set mandatory_cols. \<not> present m capital_schema_example) \<and>
   load_dataset (Inr \<lparr>columns = capital_schema_example, rows = []::raw_record list\<rparr>) =
     Inl ''Schema error: missing mandatory columns ['sex', 'unit']''"
proof -
  have f: "filter (\<lambda>m. \<not> present m schema_example) mandatory_cols = [''sex'']"
    by code_simp
  have "\<exists>m\<in>set mandatory_cols. \<not> present m schema_example"
    by code_simp
  then have h: "\<exists>m\<in>set mandatory_cols. \<not> present m (columns \<lparr>columns = schema_example, rows = []::raw_record list\<rparr>)"
    by simp
  have f': "filter (\<lambda>m. \<not> present m nbsp_schema_example) mandatory_cols = [''sex'']"
    by code_simp
  have "\<exists>m\<in>set mandatory_cols. \<not> present m nbsp_schema_example"
    by code_simp
  then have h': "\<exists>m\<in>set mandatory_cols. \<not> present m (columns \<lparr>columns = nbsp_schema_example, rows = []::raw_record list\<rparr>)"
    by simp
  have f'': "filter (\<lambda>m. \<not> present m capital_schema_example) mandatory_cols = [''sex'', ''unit'']"
    by code_simp
  have "\<exists>m\<in>set mandatory_cols. \<not> present m capital_schema_example"
    by code_simp
  then have h'': "\<exists>m\<in>set mandatory_cols. \<not> present m (columns \<lparr>columns = capital_schema_example, rows = []::raw_record list\<rparr>)"
    by simp
  have r: "py_repr_list [''sex''] = ''['sex']''"
    by code_simp
  have r': "py_repr_list [''sex'', ''unit''] = ''['sex', 'unit']''"
    by code_simp
  from load_dataset_missing [OF h] load_dataset_missing [OF h'] load_dataset_missing [OF h'']
    f f' f'' r r' h h' h'' show ?thesis
    by simp
qed

end
